theory Spec2Isabelle
  imports Complex_Main "HOL-Library.Word"
begin

section \<open>External collaborators\<close>

text \<open>
  The simulation scripts run on top of ns-3.  What they consume from it is kept abstract:
  \<^item> the random engine (\<open>std::mt19937\<close>) is a state of type \<open>'g\<close>, and drawing from a
    \<open>std::normal_distribution<double>(mean, stddev)\<close> constructed on the spot is a function
    from the engine state to a variate and the next engine state;
  \<^item> the mobility service answers \<open>GetDistanceFrom\<close> for a pair of node ids;
  \<^item> an ns-3 \<open>Time\<close> is an integer tick count, \<open>Seconds(0)\<close> is \<open>0\<close>, and
    \<open>GetMilliSeconds\<close> reads a tick count in milliseconds;
  \<^item> the uid of a packet and \<open>Simulator::Now()\<close> are given to the function that reads
    them, the uid already cut to the \<open>uint32_t\<close> the scripts keep it in.
  A \<open>double\<close> is modelled as a real number; console output is not modelled.
\<close>

record 'g External =
  normal_distribution :: "real \<Rightarrow> real \<Rightarrow> 'g \<Rightarrow> real \<times> 'g"
  GetDistanceFrom :: "32 word \<Rightarrow> 32 word \<Rightarrow> real"
  GetMilliSeconds :: "int \<Rightarrow> int"

text \<open>A pointer to a \<open>ZigbeeStack\<close> is used for its node id and its current network address.\<close>

record ZigbeeStack =
  GetId :: "32 word"
  GetNetworkAddress :: "16 word"

datatype ApsDstAddressMode =
  DST_ADDR16_DST_ENDPOINT_PRESENT
  | GROUP_ADDR_DST_ENDPOINT_NOT_PRESENT
  | DST_ADDR_MODE_OTHER

datatype ApsStatus = APS_SUCCESS | APS_FAILURE "8 word"

datatype NwkStatus = NWK_SUCCESS | NWK_FAILURE "8 word"

text \<open>
  The fields of \<open>ApsdeDataRequestParams\<close> that the scripts assign.  A group command leaves
  \<open>m_dstEndPoint\<close> unassigned (\<open>None\<close>).
\<close>

record ApsdeDataRequestParams =
  m_useAlias :: bool
  m_srcEndPoint :: "8 word"
  m_dstEndPoint :: "8 word option"
  m_clusterId :: "16 word"
  m_profileId :: "16 word"
  m_dstAddrMode :: ApsDstAddressMode
  m_dstAddr16 :: "16 word"

datatype JoiningMethod = ASSOCIATION

record NlmeJoinRequestParams =
  m_rejoinNetwork :: JoiningMethod
  m_capabilityRouter :: bool
  m_capabilityAllocateAddr :: bool
  m_extendedPanId :: "64 word"

text \<open>
  \<open>Simulator::ScheduleNow\<close> hands a request to the external stack.  The requests handed
  over so far are kept in a list, each with the node id of the issuing stack; a data request
  carries the uid of its packet.
\<close>

datatype request =
  ApsdeDataRequest "32 word" ApsdeDataRequestParams "32 word"
  | NlmeJoinRequest "32 word" NlmeJoinRequestParams

text \<open>
  A discovery confirmation carries a status and the list of network descriptors found; a
  descriptor is used for its extended PAN id only.
\<close>

record NlmeNetworkDiscoveryConfirmParams =
  m_status :: NwkStatus
  m_netDescList :: "64 word list"

section \<open>zigbee-extended-sim.cc\<close>

subsection \<open>Configuration and statistics\<close>

record ChannelConfig =
  enableNoise :: bool
  enableFading :: bool
  nodeDistance :: real
  numNodes :: "32 word"
  txPowerDbm :: real
  refDistance :: real
  refPathLossDb :: real
  pathLossExp :: real
  noiseFloorDbm :: real
  noiseFigureDb :: real
  sensitivityDbm :: real
  snrThresholdDb :: real

text \<open>The default member initialisers of \<open>struct ChannelConfig\<close>.\<close>

definition g_channel :: ChannelConfig where
  "g_channel =
     \<lparr>enableNoise = True, enableFading = True, nodeDistance = 10, numNodes = 6,
      txPowerDbm = 4, refDistance = 1, refPathLossDb = 40.77, pathLossExp = 2,
      noiseFloorDbm = - 174, noiseFigureDb = 3, sensitivityDbm = - 97,
      snrThresholdDb = 3\<rparr>"

text \<open>
  \<open>main\<close>, "Apply configuration": the six command-line values overwrite their fields, every
  other field keeps its default.
\<close>

definition main_configuration ::
  "bool \<Rightarrow> bool \<Rightarrow> real \<Rightarrow> real \<Rightarrow> 32 word \<Rightarrow> real \<Rightarrow> ChannelConfig" where
  "main_configuration noise fading noiseFloor distance nodes exponent =
     g_channel\<lparr>enableNoise := noise, enableFading := fading, noiseFloorDbm := noiseFloor,
       nodeDistance := distance, numNodes := nodes, pathLossExp := exponent\<rparr>"

definition effectiveNoiseDbm :: "ChannelConfig \<Rightarrow> real" where
  "effectiveNoiseDbm cfg = noiseFloorDbm cfg + noiseFigureDb cfg"

record SimStats =
  totalSent :: "32 word"
  totalReceived :: "32 word"
  totalDropped :: "32 word"
  droppedByNoise :: "32 word"
  droppedByFading :: "32 word"
  droppedBySensitivity :: "32 word"
  snrSamples :: "real list"
  rxPowerSamples :: "real list"
  fadingSamples :: "real list"
  distanceSamples :: "real list"
  delaysSamples :: "real list"
  sendTimes :: "32 word \<rightharpoonup> int"
  firstSend :: int
  lastRecv :: int

definition SimStats_initial :: SimStats where
  "SimStats_initial =
     \<lparr>totalSent = 0, totalReceived = 0, totalDropped = 0, droppedByNoise = 0,
      droppedByFading = 0, droppedBySensitivity = 0, snrSamples = [], rxPowerSamples = [],
      fadingSamples = [], distanceSamples = [], delaysSamples = [], sendTimes = Map.empty,
      firstSend = 0, lastRecv = 0\<rparr>"

text \<open>
  The process-wide state of a script: its statistics \<open>g_stats\<close>, its random engine
  (\<open>g_rng\<close> in the extended script, \<open>gen\<close> in version 3) and the requests scheduled so far.
\<close>

record ('st, 'g) Sim =
  g_stats :: 'st
  g_rng :: 'g
  scheduled :: "request list"

subsection \<open>Channel model\<close>

definition GenerateRayleighFading :: "'g External \<Rightarrow> ChannelConfig \<Rightarrow> 'g \<Rightarrow> real \<times> 'g" where
  "GenerateRayleighFading E cfg g =
     (if \<not> enableFading cfg then (1, g)
      else
        (let (re, g1) = normal_distribution E 0 (1 / sqrt 2) g;
             (im, g2) = normal_distribution E 0 (1 / sqrt 2) g1
         in (sqrt (re * re + im * im), g2)))"

definition GenerateNoisePower :: "'g External \<Rightarrow> ChannelConfig \<Rightarrow> 'g \<Rightarrow> real \<times> 'g" where
  "GenerateNoisePower E cfg g =
     (if \<not> enableNoise cfg then (- 200, g)
      else
        (let (variation, g1) = normal_distribution E 0 1 g
         in (effectiveNoiseDbm cfg + variation, g1)))"

definition CalculatePathLoss :: "ChannelConfig \<Rightarrow> real \<Rightarrow> real" where
  "CalculatePathLoss cfg distance =
     (let d = max distance (refDistance cfg);
          pathLossDb = refPathLossDb cfg + 10 * pathLossExp cfg * log 10 (d / refDistance cfg)
      in pathLossDb)"

definition SimulateChannel ::
  "'g External \<Rightarrow> ChannelConfig \<Rightarrow> 32 word \<Rightarrow> 32 word \<Rightarrow> 32 word \<Rightarrow> (SimStats, 'g) Sim \<Rightarrow> bool \<times> (SimStats, 'g) Sim" where
  "SimulateChannel E cfg srcId dstId pktSize w =
     (let distance = GetDistanceFrom E srcId dstId;
          st1 = (g_stats w)\<lparr>distanceSamples := distanceSamples (g_stats w) @ [distance]\<rparr>;
          pathLossDb = CalculatePathLoss cfg distance;
          (fadingCoef, r1) = GenerateRayleighFading E cfg (g_rng w);
          fadingDb = 20 * log 10 (max fadingCoef (1 / 10 ^ 10));
          rxPowerDbm = txPowerDbm cfg - pathLossDb + fadingDb;
          (noisePowerDbm, r2) = GenerateNoisePower E cfg r1;
          snrDb = rxPowerDbm - noisePowerDbm;
          st2 = st1\<lparr>snrSamples := snrSamples st1 @ [snrDb],
                   rxPowerSamples := rxPowerSamples st1 @ [rxPowerDbm],
                   fadingSamples := fadingSamples st1 @ [fadingCoef]\<rparr>
      in
        if rxPowerDbm < sensitivityDbm cfg then
          (False, w\<lparr>g_stats := st2\<lparr>droppedBySensitivity := droppedBySensitivity st2 + 1\<rparr>,
                    g_rng := r2\<rparr>)
        else if snrDb < snrThresholdDb cfg then
          (if fadingCoef < 0.5 \<and> enableFading cfg then
             (False, w\<lparr>g_stats := st2\<lparr>droppedByFading := droppedByFading st2 + 1\<rparr>,
                       g_rng := r2\<rparr>)
           else
             (False, w\<lparr>g_stats := st2\<lparr>droppedByNoise := droppedByNoise st2 + 1\<rparr>,
                       g_rng := r2\<rparr>))
        else (True, w\<lparr>g_stats := st2, g_rng := r2\<rparr>))"

subsection \<open>Callbacks and data transmission\<close>

text \<open>
  The pending-delivery bookkeeping is written inline in the script.  \<open>beginPendingDelivery\<close>
  is the statement \<open>g_stats.sendTimes[pkt->GetUid()] = Simulator::Now()\<close> of
  \<open>SendSensorData\<close>; \<open>completePendingDelivery\<close> is the \<open>if (g_stats.sendTimes.count(uid))\<close>
  block of \<open>OnDataReceived\<close>.
\<close>

definition beginPendingDelivery :: "32 word \<Rightarrow> int \<Rightarrow> SimStats \<Rightarrow> SimStats" where
  "beginPendingDelivery uid now st = st\<lparr>sendTimes := (sendTimes st)(uid \<mapsto> now)\<rparr>"

definition completePendingDelivery :: "'g External \<Rightarrow> 32 word \<Rightarrow> int \<Rightarrow> SimStats \<Rightarrow> SimStats" where
  "completePendingDelivery E uid now st =
     (case sendTimes st uid of
        None \<Rightarrow> st
      | Some t0 \<Rightarrow>
          (let delayMs = real_of_int (GetMilliSeconds E (now - t0))
           in st\<lparr>delaysSamples := delaysSamples st @ [delayMs],
                 sendTimes := (sendTimes st)(uid := None)\<rparr>))"

definition OnDataReceived :: "'g External \<Rightarrow> 32 word \<Rightarrow> int \<Rightarrow> (SimStats, 'g) Sim \<Rightarrow> (SimStats, 'g) Sim" where
  "OnDataReceived E uid now w =
     (let st1 = (g_stats w)\<lparr>totalReceived := totalReceived (g_stats w) + 1, lastRecv := now\<rparr>
      in w\<lparr>g_stats := completePendingDelivery E uid now st1\<rparr>)"

definition OnDataConfirm :: "ApsStatus \<Rightarrow> (SimStats, 'g) Sim \<Rightarrow> (SimStats, 'g) Sim" where
  "OnDataConfirm status w =
     (if status \<noteq> APS_SUCCESS
      then w\<lparr>g_stats := (g_stats w)\<lparr>totalDropped := totalDropped (g_stats w) + 1\<rparr>\<rparr>
      else w)"

definition OnNetworkDiscovery ::
  "ZigbeeStack \<Rightarrow> NlmeNetworkDiscoveryConfirmParams \<Rightarrow> (SimStats, 'g) Sim \<Rightarrow> (SimStats, 'g) Sim" where
  "OnNetworkDiscovery stack params w =
     (if m_status params = NWK_SUCCESS \<and> m_netDescList params \<noteq> [] then
        (let joinParams = \<lparr>m_rejoinNetwork = ASSOCIATION, m_capabilityRouter = True,
                            m_capabilityAllocateAddr = True,
                            m_extendedPanId = hd (m_netDescList params)\<rparr>
         in w\<lparr>scheduled := scheduled w @ [NlmeJoinRequest (GetId stack) joinParams]\<rparr>)
      else w)"

definition SendSensorData ::
  "'g External \<Rightarrow> ChannelConfig \<Rightarrow> ZigbeeStack \<Rightarrow> ZigbeeStack \<Rightarrow> 32 word \<Rightarrow> int \<Rightarrow> (SimStats, 'g) Sim \<Rightarrow> (SimStats, 'g) Sim" where
  "SendSensorData E cfg sensor coordinator uid now w =
     (let srcId = GetId sensor;
          dstId = GetId coordinator;
          pktSize = 10;
          st1 = (g_stats w)\<lparr>totalSent := totalSent (g_stats w) + 1\<rparr>;
          st2 = (if firstSend st1 = 0 then st1\<lparr>firstSend := now\<rparr> else st1);
          (success, w1) = SimulateChannel E cfg srcId dstId pktSize (w\<lparr>g_stats := st2\<rparr>)
      in
        if \<not> success then
          w1\<lparr>g_stats := (g_stats w1)\<lparr>totalDropped := totalDropped (g_stats w1) + 1\<rparr>\<rparr>
        else
          (let st3 = beginPendingDelivery uid now (g_stats w1);
               params = \<lparr>m_useAlias = False, m_srcEndPoint = 1, m_dstEndPoint = Some 1,
                         m_clusterId = 0x0402, m_profileId = 0x0104,
                         m_dstAddrMode = DST_ADDR16_DST_ENDPOINT_PRESENT,
                         m_dstAddr16 = GetNetworkAddress coordinator\<rparr>
           in w1\<lparr>g_stats := st3,
                  scheduled := scheduled w1 @ [ApsdeDataRequest (GetId sensor) params uid]\<rparr>))"

text \<open>
  The scheduler runs the callbacks one after the other.  A run of the data phase is the
  list of its callbacks in the order they fire: a send comes with the uid that
  \<open>Create\<close> would give the packet and with \<open>Simulator::Now()\<close>.  The other callbacks
  of this script (formation, discovery, join, route discovery) do not touch \<open>g_stats\<close>.
\<close>

datatype event =
  SendSensorData_at ZigbeeStack ZigbeeStack "32 word" int
  | OnDataReceived_at "32 word" int
  | OnDataConfirm_at ApsStatus

fun fire :: "'g External \<Rightarrow> ChannelConfig \<Rightarrow> event \<Rightarrow> (SimStats, 'g) Sim \<Rightarrow> (SimStats, 'g) Sim" where
  "fire E cfg (SendSensorData_at sensor coordinator uid now) w =
     SendSensorData E cfg sensor coordinator uid now w"
| "fire E cfg (OnDataReceived_at uid now) w = OnDataReceived E uid now w"
| "fire E cfg (OnDataConfirm_at status) w = OnDataConfirm status w"

fun Simulator_Run ::
  "'g External \<Rightarrow> ChannelConfig \<Rightarrow> event list \<Rightarrow> (SimStats, 'g) Sim \<Rightarrow> (SimStats, 'g) Sim" where
  "Simulator_Run E cfg [] w = w"
| "Simulator_Run E cfg (e # es) w = Simulator_Run E cfg es (fire E cfg e w)"

text \<open>
  What the external stack is expected to do in a run: a packet handed to it gets a uid that
  no packet in flight has, and a receive indication is for a packet in flight.
\<close>

fun matched :: "event \<Rightarrow> SimStats \<Rightarrow> bool" where
  "matched (SendSensorData_at sensor coordinator uid now) st = (sendTimes st uid = None)"
| "matched (OnDataReceived_at uid now) st = (sendTimes st uid \<noteq> None)"
| "matched (OnDataConfirm_at status) st = True"

fun well_matched ::
  "'g External \<Rightarrow> ChannelConfig \<Rightarrow> event list \<Rightarrow> (SimStats, 'g) Sim \<Rightarrow> bool" where
  "well_matched E cfg [] w = True"
| "well_matched E cfg (e # es) w =
     (matched e (g_stats w) \<and> well_matched E cfg es (fire E cfg e w))"


section \<open>smart-home-zigbee-complete-ver3.cc\<close>

subsection \<open>Constants and statistics\<close>

definition TX_POWER :: real where "TX_POWER = 35"
definition RX_POWER :: real where "RX_POWER = 25"
definition NOISE_FLOOR_DBM :: real where "NOISE_FLOOR_DBM = - 95"
definition TX_POWER_DBM :: real where "TX_POWER_DBM = 0"
definition REFERENCE_DISTANCE :: real where "REFERENCE_DISTANCE = 1"
definition PATH_LOSS_EXPONENT :: real where "PATH_LOSS_EXPONENT = 3"
definition SNR_THRESHOLD_DB :: real where "SNR_THRESHOLD_DB = 6"

record NetworkStats =
  packetsTransmitted :: "32 word"
  packetsReceived :: "32 word"
  packetsFailed :: "32 word"
  bytesTransmitted :: "32 word"
  bytesReceived :: "32 word"
  routeDiscoveries :: "32 word"
  joinAttempts :: "32 word"
  joinSuccesses :: "32 word"
  groupCommands :: "32 word"
  packetsDroppedByNoise :: "32 word"
  packetsDroppedByFading :: "32 word"
  snrValues :: "real list"
  fadingCoefficients :: "real list"
  firstPacketTime :: int
  lastPacketTime :: int
  packetSendTimes :: "32 word \<rightharpoonup> int"
  delays :: "real list"
  totalTxPower :: real
  totalRxPower :: real
  totalIdlePower :: real
  nodePacketsSent :: "32 word \<rightharpoonup> 32 word"
  nodePacketsReceived :: "32 word \<rightharpoonup> 32 word"

definition NetworkStats_initial :: NetworkStats where
  "NetworkStats_initial =
     \<lparr>packetsTransmitted = 0, packetsReceived = 0, packetsFailed = 0, bytesTransmitted = 0,
      bytesReceived = 0, routeDiscoveries = 0, joinAttempts = 0, joinSuccesses = 0,
      groupCommands = 0, packetsDroppedByNoise = 0, packetsDroppedByFading = 0,
      snrValues = [], fadingCoefficients = [], firstPacketTime = 0, lastPacketTime = 0,
      packetSendTimes = Map.empty, delays = [], totalTxPower = 0, totalRxPower = 0,
      totalIdlePower = 0, nodePacketsSent = Map.empty, nodePacketsReceived = Map.empty\<rparr>"

text \<open>\<open>m[k]++\<close> on a \<open>std::map\<close> from \<open>uint32_t\<close> to \<open>uint32_t\<close>: a missing key starts at zero.\<close>

definition increment_at :: "32 word \<Rightarrow> (32 word \<rightharpoonup> 32 word) \<Rightarrow> (32 word \<rightharpoonup> 32 word)" where
  "increment_at k m = m(k \<mapsto> (case m k of None \<Rightarrow> 0 | Some c \<Rightarrow> c) + 1)"

subsection \<open>Channel model\<close>

text \<open>
  The channel functions of this script take no configuration: the switches that \<open>main\<close>
  parses do not reach them, and there is no receiver sensitivity.  Its
  \<open>20 * log10(fadingCoeff)\<close> has no lower clamp: it is \<open>-inf\<close> in C++ when both variates
  are exactly zero, a value the reals do not have; no statement below evaluates it at a
  coefficient of zero.
\<close>

definition GenerateRayleighFading_v3 :: "'g External \<Rightarrow> 'g \<Rightarrow> real \<times> 'g" where
  "GenerateRayleighFading_v3 E g =
     (let (re, g1) = normal_distribution E 0 1 g;
          (im, g2) = normal_distribution E 0 1 g1;
          amplitude = sqrt (re * re + im * im);
          amplitude = amplitude / sqrt 2
      in (amplitude, g2))"

definition CalculatePathLoss_v3 :: "real \<Rightarrow> real" where
  "CalculatePathLoss_v3 distance =
     (let distance = (if distance < REFERENCE_DISTANCE then REFERENCE_DISTANCE else distance);
          pathLoss = 40 + 10 * PATH_LOSS_EXPONENT * log 10 (distance / REFERENCE_DISTANCE)
      in pathLoss)"

definition GenerateGaussianNoise :: "'g External \<Rightarrow> 'g \<Rightarrow> real \<times> 'g" where
  "GenerateGaussianNoise E g =
     (let (noiseSample, g1) = normal_distribution E 0 1 g;
          noiseDbm = NOISE_FLOOR_DBM + noiseSample * 3
      in (noiseDbm, g1))"

text \<open>The reference parameter \<open>fadingCoeff\<close> is returned as the second component.\<close>

definition CalculateReceivedPower :: "'g External \<Rightarrow> real \<Rightarrow> 'g \<Rightarrow> real \<times> real \<times> 'g" where
  "CalculateReceivedPower E distance g =
     (let (fadingCoeff, g1) = GenerateRayleighFading_v3 E g;
          fadingDb = 20 * log 10 fadingCoeff;
          pathLossDb = CalculatePathLoss_v3 distance;
          rxPowerDbm = TX_POWER_DBM - pathLossDb + fadingDb
      in (rxPowerDbm, fadingCoeff, g1))"

definition CalculateSNR :: "real \<Rightarrow> real \<Rightarrow> real" where
  "CalculateSNR rxPowerDbm noisePowerDbm = rxPowerDbm - noisePowerDbm"

definition SimulateChannelEffects ::
  "'g External \<Rightarrow> 32 word \<Rightarrow> 32 word \<Rightarrow> (NetworkStats, 'g) Sim \<Rightarrow> bool \<times> (NetworkStats, 'g) Sim" where
  "SimulateChannelEffects E srcNodeId dstNodeId w =
     (let distance = GetDistanceFrom E srcNodeId dstNodeId;
          (rxPowerDbm, fadingCoeff, g1) = CalculateReceivedPower E distance (g_rng w);
          (noisePowerDbm, g2) = GenerateGaussianNoise E g1;
          snrDb = CalculateSNR rxPowerDbm noisePowerDbm;
          st = (g_stats w)\<lparr>snrValues := snrValues (g_stats w) @ [snrDb],
                           fadingCoefficients := fadingCoefficients (g_stats w) @ [fadingCoeff]\<rparr>
      in
        if snrDb < SNR_THRESHOLD_DB then
          (if fadingCoeff < 0.5 then
             (False, w\<lparr>g_stats := st\<lparr>packetsDroppedByFading := packetsDroppedByFading st + 1\<rparr>,
                       g_rng := g2\<rparr>)
           else
             (False, w\<lparr>g_stats := st\<lparr>packetsDroppedByNoise := packetsDroppedByNoise st + 1\<rparr>,
                       g_rng := g2\<rparr>))
        else (True, w\<lparr>g_stats := st, g_rng := g2\<rparr>))"

subsection \<open>Power estimates\<close>

definition CalculateTransmissionTime :: "32 word \<Rightarrow> real" where
  "CalculateTransmissionTime packetSize =
     (let totalBytes = packetSize + 6 + 25 + 8
      in real (unat totalBytes) * 8 / 250000 * 1000)"

definition AddTransmissionPower :: "32 word \<Rightarrow> NetworkStats \<Rightarrow> NetworkStats" where
  "AddTransmissionPower packetSize st =
     (let txTime = CalculateTransmissionTime packetSize
      in st\<lparr>totalTxPower := totalTxPower st + TX_POWER * txTime / 1000\<rparr>)"

definition AddReceptionPower :: "32 word \<Rightarrow> NetworkStats \<Rightarrow> NetworkStats" where
  "AddReceptionPower packetSize st =
     (let rxTime = CalculateTransmissionTime packetSize
      in st\<lparr>totalRxPower := totalRxPower st + RX_POWER * rxTime / 1000\<rparr>)"

subsection \<open>Callbacks and data transmission\<close>

text \<open>
  As in the extended script the pending-delivery bookkeeping is inline:
  \<open>beginPendingDelivery_v3\<close> is \<open>g_stats.packetSendTimes[p->GetUid()] = Simulator::Now()\<close>
  of \<open>SendTemperatureReading\<close> and \<open>SendGroupCommand\<close>, \<open>completePendingDelivery_v3\<close> is the
  \<open>if (g_stats.packetSendTimes.find(packetUid) != ...)\<close> block of \<open>ApsDataIndication\<close>.
\<close>

definition beginPendingDelivery_v3 :: "32 word \<Rightarrow> int \<Rightarrow> NetworkStats \<Rightarrow> NetworkStats" where
  "beginPendingDelivery_v3 uid now st = st\<lparr>packetSendTimes := (packetSendTimes st)(uid \<mapsto> now)\<rparr>"

definition completePendingDelivery_v3 ::
  "'g External \<Rightarrow> 32 word \<Rightarrow> int \<Rightarrow> NetworkStats \<Rightarrow> NetworkStats" where
  "completePendingDelivery_v3 E packetUid now st =
     (case packetSendTimes st packetUid of
        None \<Rightarrow> st
      | Some t0 \<Rightarrow>
          (let delay = now - t0
           in st\<lparr>delays := delays st @ [real_of_int (GetMilliSeconds E delay)],
                 packetSendTimes := (packetSendTimes st)(packetUid := None)\<rparr>))"

text \<open>
  \<open>ApsDataIndication\<close> reads the node id of the receiving stack, the destination address
  mode of the indication, and the size and uid of the packet.
\<close>

definition ApsDataIndication ::
  "'g External \<Rightarrow> ZigbeeStack \<Rightarrow> ApsDstAddressMode \<Rightarrow> 32 word \<Rightarrow> 32 word \<Rightarrow> int \<Rightarrow>
   (NetworkStats, 'g) Sim \<Rightarrow> (NetworkStats, 'g) Sim" where
  "ApsDataIndication E stack dstAddrMode pktSize packetUid now w =
     (let st1 = (g_stats w)\<lparr>packetsReceived := packetsReceived (g_stats w) + 1,
                            bytesReceived := bytesReceived (g_stats w) + pktSize\<rparr>;
          nodeId = GetId stack;
          st2 = st1\<lparr>nodePacketsReceived := increment_at nodeId (nodePacketsReceived st1),
                   lastPacketTime := now\<rparr>;
          st3 = completePendingDelivery_v3 E packetUid now st2;
          st4 = AddReceptionPower pktSize st3;
          st5 = (if dstAddrMode = DST_ADDR16_DST_ENDPOINT_PRESENT then st4
                 else if dstAddrMode = GROUP_ADDR_DST_ENDPOINT_NOT_PRESENT
                 then st4\<lparr>groupCommands := groupCommands st4 + 1\<rparr>
                 else st4)
      in w\<lparr>g_stats := st5\<rparr>)"

definition ApsDataConfirm :: "ApsStatus \<Rightarrow> (NetworkStats, 'g) Sim \<Rightarrow> (NetworkStats, 'g) Sim" where
  "ApsDataConfirm status w =
     (if status \<noteq> APS_SUCCESS
      then w\<lparr>g_stats := (g_stats w)\<lparr>packetsFailed := packetsFailed (g_stats w) + 1\<rparr>\<rparr>
      else w)"

text \<open>
  \<open>params.m_netDescList[0]\<close> is \<open>std::vector::operator[]\<close>: on an empty vector the read is
  out of range and the behaviour of the program is undefined from there on.  The model
  returns the fault instead of a state.
\<close>

datatype fault = IndexOutOfRange

definition NwkNetworkDiscoveryConfirm ::
  "ZigbeeStack \<Rightarrow> NlmeNetworkDiscoveryConfirmParams \<Rightarrow> (NetworkStats, 'g) Sim \<Rightarrow>
   fault + (NetworkStats, 'g) Sim" where
  "NwkNetworkDiscoveryConfirm stack params w =
     (if m_status params = NWK_SUCCESS then
        (case m_netDescList params of
           [] \<Rightarrow> Inl IndexOutOfRange
         | first # rest \<Rightarrow>
             (let joinParams = \<lparr>m_rejoinNetwork = ASSOCIATION, m_capabilityRouter = True,
                                 m_capabilityAllocateAddr = True, m_extendedPanId = first\<rparr>
              in Inr (w\<lparr>g_stats := (g_stats w)\<lparr>joinAttempts := joinAttempts (g_stats w) + 1\<rparr>,
                        scheduled := scheduled w @ [NlmeJoinRequest (GetId stack) joinParams]\<rparr>)))
      else Inr w)"

definition SendTemperatureReading ::
  "'g External \<Rightarrow> ZigbeeStack \<Rightarrow> ZigbeeStack \<Rightarrow> 32 word \<Rightarrow> int \<Rightarrow>
   (NetworkStats, 'g) Sim \<Rightarrow> (NetworkStats, 'g) Sim" where
  "SendTemperatureReading E sensorStack coordinatorStack uid now w =
     (let srcNodeId = GetId sensorStack;
          dstNodeId = GetId coordinatorStack;
          (channelSuccess, w1) = SimulateChannelEffects E srcNodeId dstNodeId w
      in
        if \<not> channelSuccess then
          w1\<lparr>g_stats := (g_stats w1)\<lparr>packetsTransmitted := packetsTransmitted (g_stats w1) + 1,
                                     packetsFailed := packetsFailed (g_stats w1) + 1\<rparr>\<rparr>
        else
          (let pktSize = 2;
               st1 = beginPendingDelivery_v3 uid now (g_stats w1);
               st2 = (if firstPacketTime st1 = 0 then st1\<lparr>firstPacketTime := now\<rparr> else st1);
               dataReqParams = \<lparr>m_useAlias = False, m_srcEndPoint = 1, m_dstEndPoint = Some 1,
                                m_clusterId = 0x0402, m_profileId = 0x0104,
                                m_dstAddrMode = DST_ADDR16_DST_ENDPOINT_PRESENT,
                                m_dstAddr16 = GetNetworkAddress coordinatorStack\<rparr>;
               st3 = st2\<lparr>packetsTransmitted := packetsTransmitted st2 + 1,
                        bytesTransmitted := bytesTransmitted st2 + pktSize\<rparr>;
               st4 = st3\<lparr>nodePacketsSent := increment_at srcNodeId (nodePacketsSent st3)\<rparr>;
               st5 = AddTransmissionPower pktSize st4
           in w1\<lparr>g_stats := st5,
                  scheduled := scheduled w1 @
                    [ApsdeDataRequest (GetId sensorStack) dataReqParams uid]\<rparr>))"

text \<open>The command name and the command id only reach the log line and the payload byte.\<close>

definition SendGroupCommand ::
  "ZigbeeStack \<Rightarrow> 16 word \<Rightarrow> 32 word \<Rightarrow> int \<Rightarrow> (NetworkStats, 'g) Sim \<Rightarrow> (NetworkStats, 'g) Sim" where
  "SendGroupCommand sourceStack groupAddr uid now w =
     (let pktSize = 1;
          st1 = beginPendingDelivery_v3 uid now (g_stats w);
          dataReqParams = \<lparr>m_useAlias = False, m_srcEndPoint = 1, m_dstEndPoint = None,
                           m_clusterId = 0x0006, m_profileId = 0x0104,
                           m_dstAddrMode = GROUP_ADDR_DST_ENDPOINT_NOT_PRESENT,
                           m_dstAddr16 = groupAddr\<rparr>;
          st2 = st1\<lparr>packetsTransmitted := packetsTransmitted st1 + 1,
                   bytesTransmitted := bytesTransmitted st1 + pktSize\<rparr>;
          nodeId = GetId sourceStack;
          st3 = st2\<lparr>nodePacketsSent := increment_at nodeId (nodePacketsSent st2)\<rparr>;
          st4 = AddTransmissionPower pktSize st3
      in w\<lparr>g_stats := st4,
            scheduled := scheduled w @ [ApsdeDataRequest (GetId sourceStack) dataReqParams uid]\<rparr>)"

text \<open>
  A run of the data phase of this script.  Its other callbacks (formation, discovery, join,
  route discovery) change \<open>joinAttempts\<close>, \<open>joinSuccesses\<close> and \<open>routeDiscoveries\<close> only.
\<close>

datatype event_v3 =
  SendTemperatureReading_at ZigbeeStack ZigbeeStack "32 word" int
  | SendGroupCommand_at ZigbeeStack "16 word" "32 word" int
  | ApsDataIndication_at ZigbeeStack ApsDstAddressMode "32 word" "32 word" int
  | ApsDataConfirm_at ApsStatus

fun fire_v3 :: "'g External \<Rightarrow> event_v3 \<Rightarrow> (NetworkStats, 'g) Sim \<Rightarrow> (NetworkStats, 'g) Sim" where
  "fire_v3 E (SendTemperatureReading_at sensorStack coordinatorStack uid now) w =
     SendTemperatureReading E sensorStack coordinatorStack uid now w"
| "fire_v3 E (SendGroupCommand_at sourceStack groupAddr uid now) w =
     SendGroupCommand sourceStack groupAddr uid now w"
| "fire_v3 E (ApsDataIndication_at stack dstAddrMode pktSize packetUid now) w =
     ApsDataIndication E stack dstAddrMode pktSize packetUid now w"
| "fire_v3 E (ApsDataConfirm_at status) w = ApsDataConfirm status w"

fun Simulator_Run_v3 ::
  "'g External \<Rightarrow> event_v3 list \<Rightarrow> (NetworkStats, 'g) Sim \<Rightarrow> (NetworkStats, 'g) Sim" where
  "Simulator_Run_v3 E [] w = w"
| "Simulator_Run_v3 E (e # es) w = Simulator_Run_v3 E es (fire_v3 E e w)"

fun matched_v3 :: "event_v3 \<Rightarrow> NetworkStats \<Rightarrow> bool" where
  "matched_v3 (SendTemperatureReading_at sensorStack coordinatorStack uid now) st =
     (packetSendTimes st uid = None)"
| "matched_v3 (SendGroupCommand_at sourceStack groupAddr uid now) st =
     (packetSendTimes st uid = None)"
| "matched_v3 (ApsDataIndication_at stack dstAddrMode pktSize packetUid now) st =
     (packetSendTimes st packetUid \<noteq> None)"
| "matched_v3 (ApsDataConfirm_at status) st = True"

fun well_matched_v3 :: "'g External \<Rightarrow> event_v3 list \<Rightarrow> (NetworkStats, 'g) Sim \<Rightarrow> bool" where
  "well_matched_v3 E [] w = True"
| "well_matched_v3 E (e # es) w =
     (matched_v3 e (g_stats w) \<and> well_matched_v3 E es (fire_v3 E e w))"


section \<open>Initial states and concrete runs\<close>

text \<open>
  The globals at process start: every counter zero, every container empty, nothing
  scheduled, the engine in the state \<open>g\<close> its seed put it in.
\<close>

definition Sim_initial :: "'g \<Rightarrow> (SimStats, 'g) Sim" where
  "Sim_initial g = \<lparr>g_stats = SimStats_initial, g_rng = g, scheduled = []\<rparr>"

definition Sim_initial_v3 :: "'g \<Rightarrow> (NetworkStats, 'g) Sim" where
  "Sim_initial_v3 g = \<lparr>g_stats = NetworkStats_initial, g_rng = g, scheduled = []\<rparr>"

text \<open>
  A concrete environment for the examples: the nodes stand on a line, \<open>spacing\<close> metres
  from one id to the next; the engine state counts the draws and the \<open>n\<close>-th draw is
  \<open>tape n\<close> standard deviations above the mean; a tick is a nanosecond.  On the steady tape
  every draw is one standard deviation above the mean.
\<close>

definition steady_tape :: "nat \<Rightarrow> real" where
  "steady_tape n = 1"

definition line_environment :: "real \<Rightarrow> (nat \<Rightarrow> real) \<Rightarrow> nat External" where
  "line_environment spacing tape =
     \<lparr>normal_distribution = (\<lambda>mean stddev g. (mean + stddev * tape g, Suc g)),
      GetDistanceFrom = (\<lambda>a b. spacing * \<bar>real (unat a) - real (unat b)\<bar>),
      GetMilliSeconds = (\<lambda>t. t div 1000000)\<rparr>"

definition coordinator_stack :: ZigbeeStack where
  "coordinator_stack = \<lparr>GetId = 0, GetNetworkAddress = 0\<rparr>"

definition sensor_stack :: ZigbeeStack where
  "sensor_stack = \<lparr>GetId = 1, GetNetworkAddress = 0x1A2B\<rparr>"

definition light_stack :: "32 word \<Rightarrow> ZigbeeStack" where
  "light_stack n = \<lparr>GetId = n, GetNetworkAddress = 0x2000 + ucast n\<rparr>"

definition GROUP_ALL_LIGHTS :: "16 word" where
  "GROUP_ALL_LIGHTS = 0x0003"

text \<open>The command-line defaults of the extended script with noise and fading switched off.\<close>

definition quiet_configuration :: ChannelConfig where
  "quiet_configuration = main_configuration False False (- 100) 10 6 3"

text \<open>One sensor packet, sent at tick 0 and indicated 3 ms later.\<close>

definition delivered_run :: "event list" where
  "delivered_run =
     [SendSensorData_at sensor_stack coordinator_stack 7 0, OnDataReceived_at 7 3000000]"

text \<open>
  Version 3 with six nodes: nodes 4 and 5 are the members of the group of all lights.  The
  coordinator sends one group command; the stack indicates it at node 4 and at node 5.
\<close>

definition group_command_run :: "event_v3 list" where
  "group_command_run =
     [SendGroupCommand_at coordinator_stack GROUP_ALL_LIGHTS 1 0,
      ApsDataIndication_at (light_stack 4) GROUP_ADDR_DST_ENDPOINT_NOT_PRESENT 1 1 5000000,
      ApsDataIndication_at (light_stack 5) GROUP_ADDR_DST_ENDPOINT_NOT_PRESENT 1 1 6000000]"

section \<open>Derived statistics\<close>


section \<open>Process start, command line and report\<close>


definition process_start_v3 :: "(32 word \<Rightarrow> 'g) \<Rightarrow> 32 word \<Rightarrow> (NetworkStats, 'g) Sim" where
  "process_start_v3 mt19937 rd = Sim_initial_v3 (mt19937 rd)"

text \<open>The command-line parameters of \<open>main\<close> in version 3, with their defaults.\<close>

record CommandLine_v3 =
  numNodes_v3 :: "32 word"
  simTime :: "32 word"
  verbose :: bool
  manyToOne :: bool
  exportCSV :: bool
  csvFilename :: string
  enableNoise_v3 :: bool
  enableFading_v3 :: bool
  snrThreshold :: real

definition CommandLine_v3_default :: CommandLine_v3 where
  "CommandLine_v3_default =
     \<lparr>numNodes_v3 = 6, simTime = 300, verbose = False, manyToOne = True, exportCSV = False,
      csvFilename = ''zigbee_performance.csv'', enableNoise_v3 = True, enableFading_v3 = True,
      snrThreshold = SNR_THRESHOLD_DB\<rparr>"

text \<open>
  \<open>main\<close> of version 3, as far as the statistics go.  It parses the command line, returns
  \<open>1\<close> for fewer than three nodes, and otherwise runs the scheduler; \<open>evs\<close> are the
  callbacks of the data phase that fire before the scheduler stops.  The values of
  \<open>enableNoise\<close>, \<open>enableFading\<close> and \<open>snrThreshold\<close> are printed in the banner and handed to
  no function.  \<open>RngSeedManager::SetSeed(12345)\<close>, under the comment "Set random seed",
  seeds the random streams of ns-3, from which the channel model draws nothing.
\<close>

definition main_v3 ::
  "'g External \<Rightarrow> (32 word \<Rightarrow> 'g) \<Rightarrow> 32 word \<Rightarrow> CommandLine_v3 \<Rightarrow> event_v3 list \<Rightarrow>
   int + (NetworkStats, 'g) Sim" where
  "main_v3 E mt19937 rd cmd evs =
     (if numNodes_v3 cmd < 3 then Inl 1
      else Inr (Simulator_Run_v3 E evs (process_start_v3 mt19937 rd)))"

text \<open>
  \<open>PrintPerformanceMetrics\<close> of version 3: the packet delivery ratio and the packet loss
  rate, both in percent.
\<close>

definition pdr :: "NetworkStats \<Rightarrow> real" where
  "pdr st =
     (if 0 < packetsTransmitted st
      then real (unat (packetsReceived st)) / real (unat (packetsTransmitted st)) * 100
      else 0)"

definition lossRate :: "NetworkStats \<Rightarrow> real" where
  "lossRate st = 100 - pdr st"

text \<open>What the report shows of a final state: the sample lists, and the packet figures.\<close>

definition samples_v3 :: "(NetworkStats, 'g) Sim \<Rightarrow> real list \<times> real list" where
  "samples_v3 w = (snrValues (g_stats w), fadingCoefficients (g_stats w))"

definition packet_figures_v3 ::
  "(NetworkStats, 'g) Sim \<Rightarrow> 32 word \<times> 32 word \<times> 32 word \<times> 32 word \<times> 32 word \<times> real \<times> real" where
  "packet_figures_v3 w =
     (packetsTransmitted (g_stats w), packetsReceived (g_stats w), packetsFailed (g_stats w),
      packetsDroppedByNoise (g_stats w), packetsDroppedByFading (g_stats w),
      pdr (g_stats w), lossRate (g_stats w))"

text \<open>
  For the examples: an engine that counts the draws from its seed on, a tape whose first
  three draws are one standard deviation above the mean and whose later draws are ten, and
  the run of one temperature reading.
\<close>

definition counting_engine :: "32 word \<Rightarrow> nat" where
  "counting_engine seed = unat seed"

definition stepped_tape :: "nat \<Rightarrow> real" where
  "stepped_tape n = (if n < 3 then 1 else 10)"

definition one_reading_run :: "event_v3 list" where
  "one_reading_run = [SendTemperatureReading_at sensor_stack coordinator_stack 7 0]"

section \<open>Auxiliary facts\<close>

lemma unat_increment:
  fixes x :: "32 word"
  assumes "unat x < 4294967295"
  shows "unat (x + 1) = unat x + 1"
proof -
  have "unat x + unat (1 :: 32 word) < 2 ^ LENGTH(32)" using assms by simp
  then have "unat (x + 1) = unat x + unat (1 :: 32 word)" by (simp only: unat_add_lem)
  then show ?thesis by simp
qed

lemma log_10_1000: "log 10 (1000 :: real) = 3"
proof -
  have "log 10 ((10 :: real) ^ 3) = 3" by (simp only: log_pow_cancel)
  then show ?thesis by simp
qed

lemma SimulateChannel_frame:
  assumes "SimulateChannel E cfg srcId dstId pktSize w = (ok, w')"
  shows "totalSent (g_stats w') = totalSent (g_stats w)"
    and "totalReceived (g_stats w') = totalReceived (g_stats w)"
    and "totalDropped (g_stats w') = totalDropped (g_stats w)"
    and "sendTimes (g_stats w') = sendTimes (g_stats w)"
    and "delaysSamples (g_stats w') = delaysSamples (g_stats w)"
    and "firstSend (g_stats w') = firstSend (g_stats w)"
    and "scheduled w' = scheduled w"
  using assms
  by (auto simp add: SimulateChannel_def Let_def split_def split: if_splits)

lemma SimulateChannel_verdict:
  assumes "SimulateChannel E cfg srcId dstId pktSize w = (ok, w')"
  shows "(ok \<and> droppedBySensitivity (g_stats w') = droppedBySensitivity (g_stats w)
             \<and> droppedByFading (g_stats w') = droppedByFading (g_stats w)
             \<and> droppedByNoise (g_stats w') = droppedByNoise (g_stats w))
       \<or> (\<not> ok \<and> droppedBySensitivity (g_stats w') = droppedBySensitivity (g_stats w) + 1
             \<and> droppedByFading (g_stats w') = droppedByFading (g_stats w)
             \<and> droppedByNoise (g_stats w') = droppedByNoise (g_stats w))
       \<or> (\<not> ok \<and> droppedBySensitivity (g_stats w') = droppedBySensitivity (g_stats w)
             \<and> droppedByFading (g_stats w') = droppedByFading (g_stats w) + 1
             \<and> droppedByNoise (g_stats w') = droppedByNoise (g_stats w))
       \<or> (\<not> ok \<and> droppedBySensitivity (g_stats w') = droppedBySensitivity (g_stats w)
             \<and> droppedByFading (g_stats w') = droppedByFading (g_stats w)
             \<and> droppedByNoise (g_stats w') = droppedByNoise (g_stats w) + 1)"
  using assms
  by (auto simp add: SimulateChannel_def Let_def split_def split: if_splits)

text \<open>The verdict of a channel evaluation depends on the engine, not on the statistics.\<close>

lemma SimulateChannel_verdict_stats:
  "fst (SimulateChannel E cfg srcId dstId pktSize (w\<lparr>g_stats := st\<rparr>)) =
   fst (SimulateChannel E cfg srcId dstId pktSize w)"
  by (simp add: SimulateChannel_def Let_def split_def)


lemma SimulateChannelEffects_frame:
  assumes "SimulateChannelEffects E srcId dstId w = (ok, w')"
  shows "packetsTransmitted (g_stats w') = packetsTransmitted (g_stats w)"
    and "packetsReceived (g_stats w') = packetsReceived (g_stats w)"
    and "packetsFailed (g_stats w') = packetsFailed (g_stats w)"
    and "packetSendTimes (g_stats w') = packetSendTimes (g_stats w)"
    and "delays (g_stats w') = delays (g_stats w)"
    and "scheduled w' = scheduled w"
  using assms
  by (auto simp add: SimulateChannelEffects_def Let_def split_def split: if_splits)

lemma SimulateChannelEffects_verdict:
  assumes "SimulateChannelEffects E srcId dstId w = (ok, w')"
  shows "(ok \<and> packetsDroppedByFading (g_stats w') = packetsDroppedByFading (g_stats w)
             \<and> packetsDroppedByNoise (g_stats w') = packetsDroppedByNoise (g_stats w))
       \<or> (\<not> ok \<and> packetsDroppedByFading (g_stats w') = packetsDroppedByFading (g_stats w) + 1
             \<and> packetsDroppedByNoise (g_stats w') = packetsDroppedByNoise (g_stats w))
       \<or> (\<not> ok \<and> packetsDroppedByFading (g_stats w') = packetsDroppedByFading (g_stats w)
             \<and> packetsDroppedByNoise (g_stats w') = packetsDroppedByNoise (g_stats w) + 1)"
  using assms
  by (auto simp add: SimulateChannelEffects_def Let_def split_def split: if_splits)


text \<open>The two ways through \<open>SendSensorData\<close>.\<close>

lemma SendSensorData_cases:
  obtains (dropped) w1 where
      "SimulateChannel E cfg (GetId sensor) (GetId coordinator) 10
         (w\<lparr>g_stats := (if firstSend (g_stats w) = 0
              then (g_stats w)\<lparr>totalSent := totalSent (g_stats w) + 1, firstSend := now\<rparr>
              else (g_stats w)\<lparr>totalSent := totalSent (g_stats w) + 1\<rparr>)\<rparr>) = (False, w1)"
      "SendSensorData E cfg sensor coordinator uid now w =
         w1\<lparr>g_stats := (g_stats w1)\<lparr>totalDropped := totalDropped (g_stats w1) + 1\<rparr>\<rparr>"
  | (delivered) w1 where
      "SimulateChannel E cfg (GetId sensor) (GetId coordinator) 10
         (w\<lparr>g_stats := (if firstSend (g_stats w) = 0
              then (g_stats w)\<lparr>totalSent := totalSent (g_stats w) + 1, firstSend := now\<rparr>
              else (g_stats w)\<lparr>totalSent := totalSent (g_stats w) + 1\<rparr>)\<rparr>) = (True, w1)"
      "SendSensorData E cfg sensor coordinator uid now w =
         w1\<lparr>g_stats := beginPendingDelivery uid now (g_stats w1),
            scheduled := scheduled w1 @
              [ApsdeDataRequest (GetId sensor)
                 \<lparr>m_useAlias = False, m_srcEndPoint = 1, m_dstEndPoint = Some 1,
                  m_clusterId = 0x0402, m_profileId = 0x0104,
                  m_dstAddrMode = DST_ADDR16_DST_ENDPOINT_PRESENT,
                  m_dstAddr16 = GetNetworkAddress coordinator\<rparr> uid]\<rparr>"
proof -
  let ?w0 = "w\<lparr>g_stats := (if firstSend (g_stats w) = 0
              then (g_stats w)\<lparr>totalSent := totalSent (g_stats w) + 1, firstSend := now\<rparr>
              else (g_stats w)\<lparr>totalSent := totalSent (g_stats w) + 1\<rparr>)\<rparr>"
  obtain ok w1 where sc: "SimulateChannel E cfg (GetId sensor) (GetId coordinator) 10 ?w0 = (ok, w1)"
    by (cases "SimulateChannel E cfg (GetId sensor) (GetId coordinator) 10 ?w0")
  show thesis
  proof (cases ok)
    case True
    with sc show thesis
      by (intro delivered [of w1]) (simp_all add: SendSensorData_def Let_def)
  next
    case False
    with sc show thesis
      by (intro dropped [of w1]) (simp_all add: SendSensorData_def Let_def)
  qed
qed

text \<open>The two ways through \<open>SendTemperatureReading\<close>.\<close>

lemma SendTemperatureReading_cases:
  obtains (dropped) w1 where
      "SimulateChannelEffects E (GetId sensorStack) (GetId coordinatorStack) w = (False, w1)"
      "SendTemperatureReading E sensorStack coordinatorStack uid now w =
         w1\<lparr>g_stats := (g_stats w1)\<lparr>packetsTransmitted := packetsTransmitted (g_stats w1) + 1,
                                    packetsFailed := packetsFailed (g_stats w1) + 1\<rparr>\<rparr>"
  | (delivered) w1 where
      "SimulateChannelEffects E (GetId sensorStack) (GetId coordinatorStack) w = (True, w1)"
      "packetsTransmitted (g_stats (SendTemperatureReading E sensorStack coordinatorStack uid now w))
         = packetsTransmitted (g_stats w1) + 1"
      "packetsReceived (g_stats (SendTemperatureReading E sensorStack coordinatorStack uid now w))
         = packetsReceived (g_stats w1)"
      "packetsDroppedByNoise (g_stats (SendTemperatureReading E sensorStack coordinatorStack uid now w))
         = packetsDroppedByNoise (g_stats w1)"
      "packetsDroppedByFading (g_stats (SendTemperatureReading E sensorStack coordinatorStack uid now w))
         = packetsDroppedByFading (g_stats w1)"
      "packetSendTimes (g_stats (SendTemperatureReading E sensorStack coordinatorStack uid now w))
         = (packetSendTimes (g_stats w1))(uid \<mapsto> now)"
      "snrValues (g_stats (SendTemperatureReading E sensorStack coordinatorStack uid now w))
         = snrValues (g_stats w1)"
      "fadingCoefficients (g_stats (SendTemperatureReading E sensorStack coordinatorStack uid now w))
         = fadingCoefficients (g_stats w1)"
proof -
  obtain ok w1 where sc: "SimulateChannelEffects E (GetId sensorStack) (GetId coordinatorStack) w = (ok, w1)"
    by (cases "SimulateChannelEffects E (GetId sensorStack) (GetId coordinatorStack) w")
  show thesis
  proof (cases ok)
    case True
    with sc show thesis
      by (intro delivered [of w1])
         (simp_all add: SendTemperatureReading_def Let_def beginPendingDelivery_v3_def
            AddTransmissionPower_def)
  next
    case False
    with sc show thesis
      by (intro dropped [of w1]) (simp_all add: SendTemperatureReading_def Let_def)
  qed
qed


subsection \<open>Sample lists along a run\<close>








subsection \<open>Counters along a run\<close>

lemma well_matched_prefix:
  "well_matched E cfg (evs @ later) w \<Longrightarrow> well_matched E cfg evs w"
  by (induction evs arbitrary: w) simp_all

lemma well_matched_v3_prefix:
  "well_matched_v3 E (evs @ later) w \<Longrightarrow> well_matched_v3 E evs w"
  by (induction evs arbitrary: w) simp_all

lemma fire_balance:
  assumes m: "matched e (g_stats w)"
    and fin: "finite (dom (sendTimes (g_stats w)))"
    and bal: "unat (totalReceived (g_stats w)) + unat (droppedByNoise (g_stats w))
        + unat (droppedByFading (g_stats w)) + unat (droppedBySensitivity (g_stats w))
        + card (dom (sendTimes (g_stats w))) = unat (totalSent (g_stats w))"
    and room: "unat (totalSent (g_stats w)) < 4294967295"
  shows "finite (dom (sendTimes (g_stats (fire E cfg e w))))
    \<and> unat (totalReceived (g_stats (fire E cfg e w))) + unat (droppedByNoise (g_stats (fire E cfg e w)))
        + unat (droppedByFading (g_stats (fire E cfg e w)))
        + unat (droppedBySensitivity (g_stats (fire E cfg e w)))
        + card (dom (sendTimes (g_stats (fire E cfg e w)))) = unat (totalSent (g_stats (fire E cfg e w)))
    \<and> unat (totalSent (g_stats (fire E cfg e w))) \<le> Suc (unat (totalSent (g_stats w)))"
proof (cases e)
  case (SendSensorData_at sensor coordinator uid now)
  have fresh: "sendTimes (g_stats w) uid = None" using m SendSensorData_at by simp
  have sent: "unat (totalSent (g_stats w) + 1) = unat (totalSent (g_stats w)) + 1"
    using room by (rule unat_increment)
  have small: "unat (droppedByNoise (g_stats w)) < 4294967295"
    "unat (droppedByFading (g_stats w)) < 4294967295"
    "unat (droppedBySensitivity (g_stats w)) < 4294967295"
    using bal room by linarith+
  note inc = small [THEN unat_increment]
  show ?thesis
  proof (cases rule: SendSensorData_cases [of E cfg sensor coordinator w now uid])
    case (dropped w1)
    from SimulateChannel_frame [OF dropped(1)] SimulateChannel_verdict [OF dropped(1)]
    show ?thesis
      using fin bal sent inc
      by (auto simp add: SendSensorData_at dropped(2) split: if_splits)
  next
    case (delivered w1)
    have "uid \<notin> dom (sendTimes (g_stats w))" using fresh by (simp add: domIff)
    then have card: "card (dom ((sendTimes (g_stats w))(uid \<mapsto> now)))
        = Suc (card (dom (sendTimes (g_stats w))))"
      using fin by simp
    from SimulateChannel_frame [OF delivered(1)] SimulateChannel_verdict [OF delivered(1)]
    show ?thesis
      using fin bal sent card
      by (auto simp add: SendSensorData_at delivered(2) beginPendingDelivery_def split: if_splits)
  qed
next
  case (OnDataReceived_at uid now)
  then obtain t0 where t0: "sendTimes (g_stats w) uid = Some t0" using m by auto
  then have mem: "uid \<in> dom (sendTimes (g_stats w))" by (simp add: domIff)
  then have pos: "0 < card (dom (sendTimes (g_stats w)))" using fin by (auto simp add: card_gt_0_iff)
  have card: "card (dom ((sendTimes (g_stats w))(uid := None)))
      = card (dom (sendTimes (g_stats w))) - 1"
    using fin mem by simp
  have "unat (totalReceived (g_stats w)) < 4294967295" using bal room by linarith
  then have recv: "unat (totalReceived (g_stats w) + 1) = unat (totalReceived (g_stats w)) + 1"
    by (rule unat_increment)
  show ?thesis
    using fin bal pos card recv t0
    by (simp add: OnDataReceived_at OnDataReceived_def completePendingDelivery_def Let_def)
next
  case (OnDataConfirm_at status)
  then show ?thesis using fin bal by (simp add: OnDataConfirm_def)
qed

lemma Simulator_Run_balance:
  assumes "well_matched E cfg evs w"
    and "finite (dom (sendTimes (g_stats w)))"
    and "unat (totalReceived (g_stats w)) + unat (droppedByNoise (g_stats w))
        + unat (droppedByFading (g_stats w)) + unat (droppedBySensitivity (g_stats w))
        + card (dom (sendTimes (g_stats w))) = unat (totalSent (g_stats w))"
    and "unat (totalSent (g_stats w)) + length evs < 4294967296"
  shows "unat (totalReceived (g_stats (Simulator_Run E cfg evs w)))
        + unat (droppedByNoise (g_stats (Simulator_Run E cfg evs w)))
        + unat (droppedByFading (g_stats (Simulator_Run E cfg evs w)))
        + unat (droppedBySensitivity (g_stats (Simulator_Run E cfg evs w)))
        + card (dom (sendTimes (g_stats (Simulator_Run E cfg evs w))))
        = unat (totalSent (g_stats (Simulator_Run E cfg evs w)))"
  using assms
proof (induction evs arbitrary: w)
  case Nil
  then show ?case by simp
next
  case (Cons e es)
  from Cons.prems have m: "matched e (g_stats w)" and rest: "well_matched E cfg es (fire E cfg e w)"
    by simp_all
  from Cons.prems have room: "unat (totalSent (g_stats w)) < 4294967295" by simp
  note step = fire_balance [OF m Cons.prems(2) Cons.prems(3) room, of E cfg]
  have "unat (totalSent (g_stats (fire E cfg e w))) + length es < 4294967296"
    using step Cons.prems(4) by simp
  with Cons.IH [OF rest] step show ?case by simp
qed

lemma fire_v3_balance:
  assumes m: "matched_v3 e (g_stats w)"
    and fin: "finite (dom (packetSendTimes (g_stats w)))"
    and bal: "unat (packetsReceived (g_stats w)) + unat (packetsDroppedByNoise (g_stats w))
        + unat (packetsDroppedByFading (g_stats w))
        + card (dom (packetSendTimes (g_stats w))) = unat (packetsTransmitted (g_stats w))"
    and room: "unat (packetsTransmitted (g_stats w)) < 4294967295"
  shows "finite (dom (packetSendTimes (g_stats (fire_v3 E e w))))
    \<and> unat (packetsReceived (g_stats (fire_v3 E e w)))
        + unat (packetsDroppedByNoise (g_stats (fire_v3 E e w)))
        + unat (packetsDroppedByFading (g_stats (fire_v3 E e w)))
        + card (dom (packetSendTimes (g_stats (fire_v3 E e w))))
        = unat (packetsTransmitted (g_stats (fire_v3 E e w)))
    \<and> unat (packetsTransmitted (g_stats (fire_v3 E e w)))
        \<le> Suc (unat (packetsTransmitted (g_stats w)))"
proof -
  have sent: "unat (packetsTransmitted (g_stats w) + 1) = unat (packetsTransmitted (g_stats w)) + 1"
    using room by (rule unat_increment)
  have small: "unat (packetsDroppedByNoise (g_stats w)) < 4294967295"
    "unat (packetsDroppedByFading (g_stats w)) < 4294967295"
    "unat (packetsReceived (g_stats w)) < 4294967295"
    using bal room by linarith+
  note inc = small [THEN unat_increment]
  have card_fresh: "card (dom ((packetSendTimes (g_stats w))(uid \<mapsto> now)))
        = Suc (card (dom (packetSendTimes (g_stats w))))"
    if "packetSendTimes (g_stats w) uid = None" for uid now
  proof -
    have "uid \<notin> dom (packetSendTimes (g_stats w))" using that by (simp add: domIff)
    then show ?thesis using fin by simp
  qed
  show ?thesis
  proof (cases e)
    case (SendTemperatureReading_at sensorStack coordinatorStack uid now)
    have fresh: "packetSendTimes (g_stats w) uid = None"
      using m SendTemperatureReading_at by simp
    show ?thesis
    proof (cases rule: SendTemperatureReading_cases [of E sensorStack coordinatorStack w uid now])
      case (dropped w1)
      from SimulateChannelEffects_frame [OF dropped(1)] SimulateChannelEffects_verdict [OF dropped(1)]
      show ?thesis
        using fin bal sent inc
        by (auto simp add: SendTemperatureReading_at dropped(2))
    next
      case (delivered w1)
      from SimulateChannelEffects_frame [OF delivered(1)]
        SimulateChannelEffects_verdict [OF delivered(1)]
      show ?thesis
        using fin bal sent card_fresh [OF fresh, of now]
        by (simp add: SendTemperatureReading_at delivered(2-6))
    qed
  next
    case (SendGroupCommand_at sourceStack groupAddr uid now)
    have fresh: "packetSendTimes (g_stats w) uid = None"
      using m SendGroupCommand_at by simp
    show ?thesis
      using fin bal sent card_fresh [OF fresh, of now]
      by (simp add: SendGroupCommand_at SendGroupCommand_def Let_def beginPendingDelivery_v3_def
          AddTransmissionPower_def)
  next
    case (ApsDataIndication_at stack dstAddrMode pktSize uid now)
    then obtain t0 where t0: "packetSendTimes (g_stats w) uid = Some t0" using m by auto
    then have mem: "uid \<in> dom (packetSendTimes (g_stats w))" by (simp add: domIff)
    then have pos: "0 < card (dom (packetSendTimes (g_stats w)))"
      using fin by (auto simp add: card_gt_0_iff)
    have card: "card (dom ((packetSendTimes (g_stats w))(uid := None)))
        = card (dom (packetSendTimes (g_stats w))) - 1"
      using fin mem by simp
    show ?thesis
      using fin bal pos card inc(3) t0
      by (simp add: ApsDataIndication_at ApsDataIndication_def completePendingDelivery_v3_def
          AddReceptionPower_def Let_def)
  next
    case (ApsDataConfirm_at status)
    then show ?thesis using fin bal by (simp add: ApsDataConfirm_def)
  qed
qed

lemma Simulator_Run_v3_balance:
  assumes "well_matched_v3 E evs w"
    and "finite (dom (packetSendTimes (g_stats w)))"
    and "unat (packetsReceived (g_stats w)) + unat (packetsDroppedByNoise (g_stats w))
        + unat (packetsDroppedByFading (g_stats w))
        + card (dom (packetSendTimes (g_stats w))) = unat (packetsTransmitted (g_stats w))"
    and "unat (packetsTransmitted (g_stats w)) + length evs < 4294967296"
  shows "unat (packetsReceived (g_stats (Simulator_Run_v3 E evs w)))
        + unat (packetsDroppedByNoise (g_stats (Simulator_Run_v3 E evs w)))
        + unat (packetsDroppedByFading (g_stats (Simulator_Run_v3 E evs w)))
        + card (dom (packetSendTimes (g_stats (Simulator_Run_v3 E evs w))))
        = unat (packetsTransmitted (g_stats (Simulator_Run_v3 E evs w)))"
  using assms
proof (induction evs arbitrary: w)
  case Nil
  then show ?case by simp
next
  case (Cons e es)
  from Cons.prems have m: "matched_v3 e (g_stats w)"
    and rest: "well_matched_v3 E es (fire_v3 E e w)"
    by simp_all
  from Cons.prems have room: "unat (packetsTransmitted (g_stats w)) < 4294967295" by simp
  note step = fire_v3_balance [OF m Cons.prems(2) Cons.prems(3) room, of E]
  have "unat (packetsTransmitted (g_stats (fire_v3 E e w))) + length es < 4294967296"
    using step Cons.prems(4) by simp
  with Cons.IH [OF rest] step show ?case by simp
qed


section \<open>Path loss and fading\<close>

text \<open>
  C7.  For every raw distance \<open>d\<close>, negative and zero included, the path loss is the
  reference loss plus \<open>10 * exponent * log10 (max d d0 / d0)\<close>, and for every \<open>d \<le> d0\<close> it is
  exactly the reference loss.  In the extended script the reference distance \<open>d0\<close> is a field
  of the configuration that no option changes from \<open>1.0\<close>; the quotient \<open>d0 / d0\<close> is \<open>1\<close> for
  every \<open>d0\<close> other than zero.  In version 3 the reference distance is the constant \<open>1.0\<close>
  and the reference loss is \<open>40\<close>.
\<close>

theorem CalculatePathLoss_clamps_distance:
  "CalculatePathLoss cfg d =
        refPathLossDb cfg
          + 10 * pathLossExp cfg * log 10 (max d (refDistance cfg) / refDistance cfg)
   \<and> (refDistance cfg \<noteq> 0 \<and> d \<le> refDistance cfg \<longrightarrow>
        CalculatePathLoss cfg d = refPathLossDb cfg)
   \<and> CalculatePathLoss_v3 d =
        40 + 10 * PATH_LOSS_EXPONENT * log 10 (max d REFERENCE_DISTANCE / REFERENCE_DISTANCE)
   \<and> (d \<le> REFERENCE_DISTANCE \<longrightarrow> CalculatePathLoss_v3 d = 40)"
  by (auto simp add: CalculatePathLoss_def CalculatePathLoss_v3_def Let_def max_def
      REFERENCE_DISTANCE_def)

theorem CalculatePathLoss_clamps_distance_witness:
  "refDistance g_channel \<noteq> 0
   \<and> (- 5 :: real) \<le> refDistance g_channel
   \<and> CalculatePathLoss g_channel (- 5) = 40.77
   \<and> (- 5 :: real) \<le> REFERENCE_DISTANCE
   \<and> CalculatePathLoss_v3 (- 5) = 40"
  using CalculatePathLoss_clamps_distance [of g_channel "- 5"]
  by (simp add: g_channel_def REFERENCE_DISTANCE_def)

text \<open>
  The extended script with \<open>enableFading\<close> off: \<open>GenerateRayleighFading\<close> returns exactly
  \<open>1\<close> and leaves the random engine as it was; the fading term in dB that \<open>SimulateChannel\<close>
  computes from it is \<open>0\<close>, so the fading sample recorded is \<open>1\<close> and the received power
  recorded is the transmit power minus the path loss.
\<close>

theorem fading_disabled_is_neutral:
  assumes "\<not> enableFading cfg"
  shows "GenerateRayleighFading E cfg g = (1, g)
    \<and> 20 * log 10 (max (fst (GenerateRayleighFading E cfg g)) (1 / 10 ^ 10)) = 0
    \<and> last (fadingSamples (g_stats (snd (SimulateChannel E cfg srcId dstId pktSize w)))) = 1
    \<and> last (rxPowerSamples (g_stats (snd (SimulateChannel E cfg srcId dstId pktSize w)))) =
        txPowerDbm cfg - CalculatePathLoss cfg (GetDistanceFrom E srcId dstId)"
  using assms
  by (simp add: GenerateRayleighFading_def SimulateChannel_def Let_def split_def)

theorem fading_disabled_is_neutral_witness:
  "\<not> enableFading quiet_configuration
   \<and> GenerateRayleighFading (line_environment 1 steady_tape) quiet_configuration 0 = (1, 0)
   \<and> last (fadingSamples (g_stats (snd
        (SimulateChannel (line_environment 1 steady_tape) quiet_configuration 1 0 10
           (Sim_initial 0))))) = 1"
  using fading_disabled_is_neutral [of quiet_configuration "line_environment 1 steady_tape" 0 1 0 10
      "Sim_initial 0"]
  by (simp add: quiet_configuration_def main_configuration_def g_channel_def)

text \<open>
  C9, as amended.  With fading and noise disabled, a positive reference distance and a
  path-loss exponent that is not negative, the received power that \<open>SimulateChannel\<close>
  records is non-increasing in the distance: a pair of nodes farther apart never gets a
  higher received power than a pair closer together, all other parameters fixed.
\<close>

theorem rx_power_antitone_in_distance:
  assumes "\<not> enableFading cfg" and "\<not> enableNoise cfg"
    and "0 < refDistance cfg" and "0 \<le> pathLossExp cfg"
    and "GetDistanceFrom E src1 dst1 < GetDistanceFrom E src2 dst2"
  shows "last (rxPowerSamples (g_stats (snd (SimulateChannel E cfg src2 dst2 pktSize2 w2))))
       \<le> last (rxPowerSamples (g_stats (snd (SimulateChannel E cfg src1 dst1 pktSize1 w1))))"
proof -
  let ?d1 = "GetDistanceFrom E src1 dst1" and ?d2 = "GetDistanceFrom E src2 dst2"
  have "max ?d1 (refDistance cfg) / refDistance cfg \<le> max ?d2 (refDistance cfg) / refDistance cfg"
    using assms(3,5) by (simp add: divide_le_cancel max_def)
  moreover have "0 < max ?d1 (refDistance cfg) / refDistance cfg"
    using assms(3) by (simp add: max_def)
  ultimately have "log 10 (max ?d1 (refDistance cfg) / refDistance cfg)
      \<le> log 10 (max ?d2 (refDistance cfg) / refDistance cfg)"
    by simp
  then have "CalculatePathLoss cfg ?d1 \<le> CalculatePathLoss cfg ?d2"
    using assms(4) by (simp add: CalculatePathLoss_def Let_def mult_left_mono)
  then show ?thesis
    using assms(1)
    by (simp add: SimulateChannel_def GenerateRayleighFading_def Let_def split_def)
qed

theorem rx_power_antitone_in_distance_witness:
  "\<not> enableFading quiet_configuration \<and> \<not> enableNoise quiet_configuration
   \<and> 0 < refDistance quiet_configuration \<and> 0 \<le> pathLossExp quiet_configuration
   \<and> GetDistanceFrom (line_environment 1 steady_tape) 0 1
       < GetDistanceFrom (line_environment 1 steady_tape) 0 10
   \<and> last (rxPowerSamples (g_stats (snd
         (SimulateChannel (line_environment 1 steady_tape) quiet_configuration 0 10 10
            (Sim_initial 0)))))
     \<le> last (rxPowerSamples (g_stats (snd
         (SimulateChannel (line_environment 1 steady_tape) quiet_configuration 0 1 10
            (Sim_initial 0)))))"
  using rx_power_antitone_in_distance [of quiet_configuration "line_environment 1 steady_tape"
      0 1 0 10 10 "Sim_initial 0" 10 "Sim_initial 0"]
  by (simp add: quiet_configuration_def main_configuration_def g_channel_def
      line_environment_def)

text \<open>
  C9 as stated fails for a negative path-loss exponent, which the option \<open>pathLossExp\<close>
  accepts: with exponent \<open>-1\<close>, fading and noise disabled, the nodes 10 m apart record
  \<open>-26.77\<close> dBm and the nodes 1 m apart record \<open>-36.77\<close> dBm.
\<close>

theorem negative_exponent_rx_power_grows:
  "GetDistanceFrom (line_environment 1 steady_tape) 0 1
     < GetDistanceFrom (line_environment 1 steady_tape) 0 10
   \<and> \<not> last (rxPowerSamples (g_stats (snd
         (SimulateChannel (line_environment 1 steady_tape)
            (main_configuration False False (- 100) 10 6 (- 1)) 0 10 10 (Sim_initial 0)))))
     \<le> last (rxPowerSamples (g_stats (snd
         (SimulateChannel (line_environment 1 steady_tape)
            (main_configuration False False (- 100) 10 6 (- 1)) 0 1 10 (Sim_initial 0)))))"
  by (simp add: line_environment_def main_configuration_def g_channel_def SimStats_initial_def
      Sim_initial_def SimulateChannel_def GenerateRayleighFading_def GenerateNoisePower_def
      CalculatePathLoss_def Let_def)

section \<open>Channel verdict\<close>

text \<open>
  C2.  In every channel evaluation of the extended script, a received power strictly below
  the configured receiver sensitivity gives the verdict "dropped" and increments the
  sensitivity counter and neither the fading nor the noise counter, whatever the SNR is: the
  sensitivity check comes first.  (Version 3 has no receiver sensitivity.)
\<close>

theorem sensitivity_check_comes_first:
  assumes "last (rxPowerSamples (g_stats (snd (SimulateChannel E cfg srcId dstId pktSize w))))
      < sensitivityDbm cfg"
  shows "\<not> fst (SimulateChannel E cfg srcId dstId pktSize w)
    \<and> droppedBySensitivity (g_stats (snd (SimulateChannel E cfg srcId dstId pktSize w)))
        = droppedBySensitivity (g_stats w) + 1
    \<and> droppedByFading (g_stats (snd (SimulateChannel E cfg srcId dstId pktSize w)))
        = droppedByFading (g_stats w)
    \<and> droppedByNoise (g_stats (snd (SimulateChannel E cfg srcId dstId pktSize w)))
        = droppedByNoise (g_stats w)"
  using assms
  by (auto simp add: SimulateChannel_def Let_def split_def split: if_splits)

text \<open>Nodes 1000 m apart, noise off: the SNR is 73.23 dB, far above the threshold of 3 dB.\<close>

lemma far_apart_evaluation:
  "SimulateChannel (line_environment 1000 steady_tape) quiet_configuration 1 0 10 (Sim_initial 0)
   = (False, \<lparr>g_stats = SimStats_initial\<lparr>droppedBySensitivity := 1, snrSamples := [73.23],
        rxPowerSamples := [- 126.77], fadingSamples := [1], distanceSamples := [1000]\<rparr>,
      g_rng = 0, scheduled = []\<rparr>)"
  by (simp add: line_environment_def quiet_configuration_def main_configuration_def
      g_channel_def SimStats_initial_def Sim_initial_def SimulateChannel_def
      GenerateRayleighFading_def GenerateNoisePower_def CalculatePathLoss_def Let_def
      log_10_1000)

lemma quiet_configuration_receiver:
  "sensitivityDbm quiet_configuration = - 97" "snrThresholdDb quiet_configuration = 3"
  by (simp_all add: quiet_configuration_def main_configuration_def g_channel_def)

theorem sensitivity_check_comes_first_witness:
  "last (rxPowerSamples (g_stats (snd
      (SimulateChannel (line_environment 1000 steady_tape) quiet_configuration 1 0 10
         (Sim_initial 0))))) < sensitivityDbm quiet_configuration
   \<and> snrThresholdDb quiet_configuration \<le> last (snrSamples (g_stats (snd
      (SimulateChannel (line_environment 1000 steady_tape) quiet_configuration 1 0 10
         (Sim_initial 0)))))
   \<and> \<not> fst (SimulateChannel (line_environment 1000 steady_tape) quiet_configuration 1 0 10
         (Sim_initial 0))
   \<and> droppedBySensitivity (g_stats (snd
      (SimulateChannel (line_environment 1000 steady_tape) quiet_configuration 1 0 10
         (Sim_initial 0)))) = 1"
  using sensitivity_check_comes_first [of "line_environment 1000 steady_tape" quiet_configuration
      1 0 10 "Sim_initial 0"]
  by (simp add: far_apart_evaluation quiet_configuration_receiver SimStats_initial_def)


section \<open>Sending\<close>

text \<open>
  C3.  In a unicast application-data send whose channel verdict is a drop, the sent counter
  is incremented, exactly one cause counter is incremented (and the total of failed
  packets with it), no \<open>ApsdeDataRequest\<close> is scheduled and no pending-delivery entry is
  made.  The first half is \<open>SendSensorData\<close> of the extended script, the second
  \<open>SendTemperatureReading\<close> of version 3.
\<close>

theorem dropped_send_never_reaches_stack:
  "(\<not> fst (SimulateChannel E cfg (GetId sensor) (GetId coordinator) 10 w) \<longrightarrow>
      (let w' = SendSensorData E cfg sensor coordinator uid now w in
         totalSent (g_stats w') = totalSent (g_stats w) + 1
         \<and> totalDropped (g_stats w') = totalDropped (g_stats w) + 1
         \<and> (droppedBySensitivity (g_stats w') = droppedBySensitivity (g_stats w) + 1
              \<and> droppedByFading (g_stats w') = droppedByFading (g_stats w)
              \<and> droppedByNoise (g_stats w') = droppedByNoise (g_stats w)
            \<or> droppedBySensitivity (g_stats w') = droppedBySensitivity (g_stats w)
              \<and> droppedByFading (g_stats w') = droppedByFading (g_stats w) + 1
              \<and> droppedByNoise (g_stats w') = droppedByNoise (g_stats w)
            \<or> droppedBySensitivity (g_stats w') = droppedBySensitivity (g_stats w)
              \<and> droppedByFading (g_stats w') = droppedByFading (g_stats w)
              \<and> droppedByNoise (g_stats w') = droppedByNoise (g_stats w) + 1)
         \<and> scheduled w' = scheduled w
         \<and> sendTimes (g_stats w') = sendTimes (g_stats w)))
   \<and> (\<not> fst (SimulateChannelEffects E (GetId sensorStack) (GetId coordinatorStack) v) \<longrightarrow>
      (let v' = SendTemperatureReading E sensorStack coordinatorStack uid now v in
         packetsTransmitted (g_stats v') = packetsTransmitted (g_stats v) + 1
         \<and> packetsFailed (g_stats v') = packetsFailed (g_stats v) + 1
         \<and> (packetsDroppedByFading (g_stats v') = packetsDroppedByFading (g_stats v) + 1
              \<and> packetsDroppedByNoise (g_stats v') = packetsDroppedByNoise (g_stats v)
            \<or> packetsDroppedByFading (g_stats v') = packetsDroppedByFading (g_stats v)
              \<and> packetsDroppedByNoise (g_stats v') = packetsDroppedByNoise (g_stats v) + 1)
         \<and> scheduled v' = scheduled v
         \<and> packetSendTimes (g_stats v') = packetSendTimes (g_stats v)))"
proof (intro conjI impI)
  assume drop: "\<not> fst (SimulateChannel E cfg (GetId sensor) (GetId coordinator) 10 w)"
  show "let w' = SendSensorData E cfg sensor coordinator uid now w in
         totalSent (g_stats w') = totalSent (g_stats w) + 1
         \<and> totalDropped (g_stats w') = totalDropped (g_stats w) + 1
         \<and> (droppedBySensitivity (g_stats w') = droppedBySensitivity (g_stats w) + 1
              \<and> droppedByFading (g_stats w') = droppedByFading (g_stats w)
              \<and> droppedByNoise (g_stats w') = droppedByNoise (g_stats w)
            \<or> droppedBySensitivity (g_stats w') = droppedBySensitivity (g_stats w)
              \<and> droppedByFading (g_stats w') = droppedByFading (g_stats w) + 1
              \<and> droppedByNoise (g_stats w') = droppedByNoise (g_stats w)
            \<or> droppedBySensitivity (g_stats w') = droppedBySensitivity (g_stats w)
              \<and> droppedByFading (g_stats w') = droppedByFading (g_stats w)
              \<and> droppedByNoise (g_stats w') = droppedByNoise (g_stats w) + 1)
         \<and> scheduled w' = scheduled w
         \<and> sendTimes (g_stats w') = sendTimes (g_stats w)"
  proof (cases rule: SendSensorData_cases [of E cfg sensor coordinator w now uid])
    case (dropped w1)
    from SimulateChannel_frame [OF dropped(1)] SimulateChannel_verdict [OF dropped(1)]
    show ?thesis
      by (auto simp add: dropped(2) Let_def split: if_splits)
  next
    case (delivered w1)
    from delivered(1) have "fst (SimulateChannel E cfg (GetId sensor) (GetId coordinator) 10 w)"
      using SimulateChannel_verdict_stats
        [of E cfg "GetId sensor" "GetId coordinator" 10
          "if firstSend (g_stats w) = 0
           then (g_stats w)\<lparr>totalSent := totalSent (g_stats w) + 1, firstSend := now\<rparr>
           else (g_stats w)\<lparr>totalSent := totalSent (g_stats w) + 1\<rparr>" w]
      by simp
    with drop show ?thesis by simp
  qed
next
  assume drop: "\<not> fst (SimulateChannelEffects E (GetId sensorStack) (GetId coordinatorStack) v)"
  show "let v' = SendTemperatureReading E sensorStack coordinatorStack uid now v in
         packetsTransmitted (g_stats v') = packetsTransmitted (g_stats v) + 1
         \<and> packetsFailed (g_stats v') = packetsFailed (g_stats v) + 1
         \<and> (packetsDroppedByFading (g_stats v') = packetsDroppedByFading (g_stats v) + 1
              \<and> packetsDroppedByNoise (g_stats v') = packetsDroppedByNoise (g_stats v)
            \<or> packetsDroppedByFading (g_stats v') = packetsDroppedByFading (g_stats v)
              \<and> packetsDroppedByNoise (g_stats v') = packetsDroppedByNoise (g_stats v) + 1)
         \<and> scheduled v' = scheduled v
         \<and> packetSendTimes (g_stats v') = packetSendTimes (g_stats v)"
  proof (cases rule: SendTemperatureReading_cases [of E sensorStack coordinatorStack v uid now])
    case (dropped v1)
    from SimulateChannelEffects_frame [OF dropped(1)] SimulateChannelEffects_verdict [OF dropped(1)]
    show ?thesis
      by (auto simp add: dropped(2) Let_def)
  next
    case (delivered v1)
    with drop show ?thesis by simp
  qed
qed

text \<open>
  Version 3 at 1000 m: both fading variates are \<open>1\<close>, the coefficient is \<open>1\<close>, the SNR is
  \<open>-38\<close> dB and the packet is dropped by noise.
\<close>

lemma far_apart_evaluation_v3:
  "SimulateChannelEffects (line_environment 1000 steady_tape) 1 0 (Sim_initial_v3 0)
   = (False, \<lparr>g_stats = NetworkStats_initial\<lparr>packetsDroppedByNoise := 1, snrValues := [- 38],
        fadingCoefficients := [1]\<rparr>,
      g_rng = 3, scheduled = []\<rparr>)"
  by (simp add: line_environment_def NetworkStats_initial_def Sim_initial_v3_def
      SimulateChannelEffects_def CalculateReceivedPower_def GenerateRayleighFading_v3_def
      CalculatePathLoss_v3_def GenerateGaussianNoise_def CalculateSNR_def Let_def
      NOISE_FLOOR_DBM_def TX_POWER_DBM_def REFERENCE_DISTANCE_def PATH_LOSS_EXPONENT_def
      SNR_THRESHOLD_DB_def steady_tape_def log_10_1000 numeral_3_eq_3)

theorem dropped_send_never_reaches_stack_witness:
  "\<not> fst (SimulateChannel (line_environment 1000 steady_tape) quiet_configuration
        (GetId sensor_stack) (GetId coordinator_stack) 10 (Sim_initial 0))
   \<and> totalSent (g_stats (SendSensorData (line_environment 1000 steady_tape) quiet_configuration
        sensor_stack coordinator_stack 7 0 (Sim_initial 0))) = 1
   \<and> scheduled (SendSensorData (line_environment 1000 steady_tape) quiet_configuration
        sensor_stack coordinator_stack 7 0 (Sim_initial 0)) = []
   \<and> sendTimes (g_stats (SendSensorData (line_environment 1000 steady_tape) quiet_configuration
        sensor_stack coordinator_stack 7 0 (Sim_initial 0))) 7 = None
   \<and> \<not> fst (SimulateChannelEffects (line_environment 1000 steady_tape)
        (GetId sensor_stack) (GetId coordinator_stack) (Sim_initial_v3 0))
   \<and> packetsTransmitted (g_stats (SendTemperatureReading (line_environment 1000 steady_tape)
        sensor_stack coordinator_stack 7 0 (Sim_initial_v3 0))) = 1
   \<and> scheduled (SendTemperatureReading (line_environment 1000 steady_tape)
        sensor_stack coordinator_stack 7 0 (Sim_initial_v3 0)) = []
   \<and> packetSendTimes (g_stats (SendTemperatureReading (line_environment 1000 steady_tape)
        sensor_stack coordinator_stack 7 0 (Sim_initial_v3 0))) 7 = None"
proof -
  have ext: "\<not> fst (SimulateChannel (line_environment 1000 steady_tape) quiet_configuration
      (GetId sensor_stack) (GetId coordinator_stack) 10 (Sim_initial 0))"
    by (simp add: sensor_stack_def coordinator_stack_def far_apart_evaluation)
  have v3: "\<not> fst (SimulateChannelEffects (line_environment 1000 steady_tape)
      (GetId sensor_stack) (GetId coordinator_stack) (Sim_initial_v3 0))"
    by (simp add: sensor_stack_def coordinator_stack_def far_apart_evaluation_v3)
  show ?thesis
    using ext v3
      dropped_send_never_reaches_stack [of "line_environment 1000 steady_tape" quiet_configuration
        sensor_stack coordinator_stack "Sim_initial 0" 7 0 sensor_stack coordinator_stack
        "Sim_initial_v3 0"]
    by (simp add: Let_def Sim_initial_def Sim_initial_v3_def SimStats_initial_def
        NetworkStats_initial_def)
qed

section \<open>Pending deliveries\<close>

text \<open>
  C4.  For a packet identifier that is not pending, beginning a pending delivery at \<open>t0\<close>
  and completing it at \<open>t1\<close> records the delay \<open>t1 - t0\<close>, read in milliseconds, as one
  latency sample and removes the entry, so that the map is what it was; a second completion
  for the same identifier finds nothing and leaves the state unchanged.  Completion for an
  unknown identifier is skipped without any error: the state is unchanged, and the receive
  callback of the extended script then only counts the reception.  The first half is the
  extended script, the second version 3.
\<close>

theorem pending_delivery_round_trip:
  "(sendTimes st uid = None \<longrightarrow>
      (let st1 = beginPendingDelivery uid t0 st;
           st2 = completePendingDelivery E uid t1 st1
       in delaysSamples st2 = delaysSamples st @ [real_of_int (GetMilliSeconds E (t1 - t0))]
          \<and> sendTimes st2 uid = None
          \<and> sendTimes st2 = sendTimes st
          \<and> completePendingDelivery E uid t2 st2 = st2)
      \<and> completePendingDelivery E uid t1 st = st
      \<and> g_stats (OnDataReceived E uid t1 (w\<lparr>g_stats := st\<rparr>)) =
          st\<lparr>totalReceived := totalReceived st + 1, lastRecv := t1\<rparr>)
   \<and> (packetSendTimes nst uid = None \<longrightarrow>
      (let nst1 = beginPendingDelivery_v3 uid t0 nst;
           nst2 = completePendingDelivery_v3 E uid t1 nst1
       in delays nst2 = delays nst @ [real_of_int (GetMilliSeconds E (t1 - t0))]
          \<and> packetSendTimes nst2 uid = None
          \<and> packetSendTimes nst2 = packetSendTimes nst
          \<and> completePendingDelivery_v3 E uid t2 nst2 = nst2)
      \<and> completePendingDelivery_v3 E uid t1 nst = nst)"
  by (auto simp add: beginPendingDelivery_def completePendingDelivery_def
      beginPendingDelivery_v3_def completePendingDelivery_v3_def OnDataReceived_def Let_def)

theorem pending_delivery_round_trip_witness:
  "sendTimes SimStats_initial 7 = None
   \<and> delaysSamples (completePendingDelivery (line_environment 1 steady_tape) 7 3000000
        (beginPendingDelivery 7 0 SimStats_initial)) = [3]
   \<and> sendTimes (completePendingDelivery (line_environment 1 steady_tape) 7 3000000
        (beginPendingDelivery 7 0 SimStats_initial)) 7 = None
   \<and> packetSendTimes NetworkStats_initial 7 = None
   \<and> delays (completePendingDelivery_v3 (line_environment 1 steady_tape) 7 3000000
        (beginPendingDelivery_v3 7 0 NetworkStats_initial)) = [3]
   \<and> packetSendTimes (completePendingDelivery_v3 (line_environment 1 steady_tape) 7 3000000
        (beginPendingDelivery_v3 7 0 NetworkStats_initial)) 7 = None"
  using pending_delivery_round_trip [of SimStats_initial 7 0 "line_environment 1 steady_tape" 3000000
      3000000 undefined NetworkStats_initial]
  by (simp add: SimStats_initial_def NetworkStats_initial_def Let_def line_environment_def)

section \<open>Network discovery\<close>

text \<open>
  C5.  A discovery confirmation with status success and no network descriptor.  In
  version 3 the callback tests the status alone and reads \<open>m_netDescList[0]\<close> of the empty
  vector, before it counts a join attempt and schedules the join request.  The extended
  script tests for the empty list as well, and there the callback does nothing.
\<close>

theorem discovery_of_no_network:
  "NwkNetworkDiscoveryConfirm stack \<lparr>m_status = NWK_SUCCESS, m_netDescList = []\<rparr> v
     = Inl IndexOutOfRange
   \<and> OnNetworkDiscovery stack \<lparr>m_status = NWK_SUCCESS, m_netDescList = []\<rparr> w = w"
  by (simp add: NwkNetworkDiscoveryConfirm_def OnNetworkDiscovery_def)

section \<open>Samples and counters along a run\<close>


text \<open>
  A run in which every packet handed to the stack has an identifier that no packet in
  flight has, and every receive indication is for a packet in flight.  At every point of
  such a run of fewer than \<open>2^32\<close> callbacks, the packets received, the packets dropped by
  noise, by fading and by sensitivity, and the pending deliveries add up to the packets
  sent.  The first half is the extended script, the second version 3, which has no
  sensitivity counter.
\<close>

theorem counters_balance_in_matched_runs:
  "(well_matched E cfg (evs @ later) (Sim_initial g) \<and> length (evs @ later) < 2 ^ 32 \<longrightarrow>
      (let st = g_stats (Simulator_Run E cfg evs (Sim_initial g)) in
         unat (totalReceived st) + unat (droppedByNoise st) + unat (droppedByFading st)
           + unat (droppedBySensitivity st) + card (dom (sendTimes st)) = unat (totalSent st)
         \<and> unat (totalReceived st) + unat (droppedByNoise st) + unat (droppedByFading st)
           + unat (droppedBySensitivity st) \<le> unat (totalSent st)
         \<and> (dom (sendTimes st) = {} \<longrightarrow>
              unat (totalReceived st) + unat (droppedByNoise st) + unat (droppedByFading st)
                + unat (droppedBySensitivity st) = unat (totalSent st))))
   \<and> (well_matched_v3 E (evs3 @ later3) (Sim_initial_v3 g) \<and> length (evs3 @ later3) < 2 ^ 32 \<longrightarrow>
      (let st = g_stats (Simulator_Run_v3 E evs3 (Sim_initial_v3 g)) in
         unat (packetsReceived st) + unat (packetsDroppedByNoise st)
           + unat (packetsDroppedByFading st) + card (dom (packetSendTimes st))
           = unat (packetsTransmitted st)
         \<and> unat (packetsReceived st) + unat (packetsDroppedByNoise st)
           + unat (packetsDroppedByFading st) \<le> unat (packetsTransmitted st)
         \<and> (dom (packetSendTimes st) = {} \<longrightarrow>
              unat (packetsReceived st) + unat (packetsDroppedByNoise st)
                + unat (packetsDroppedByFading st) = unat (packetsTransmitted st))))"
proof (intro conjI impI)
  assume "well_matched E cfg (evs @ later) (Sim_initial g) \<and> length (evs @ later) < 2 ^ 32"
  then have wm: "well_matched E cfg evs (Sim_initial g)" and len: "length evs < 4294967296"
    by (auto dest: well_matched_prefix)
  have "unat (totalReceived (g_stats (Simulator_Run E cfg evs (Sim_initial g))))
        + unat (droppedByNoise (g_stats (Simulator_Run E cfg evs (Sim_initial g))))
        + unat (droppedByFading (g_stats (Simulator_Run E cfg evs (Sim_initial g))))
        + unat (droppedBySensitivity (g_stats (Simulator_Run E cfg evs (Sim_initial g))))
        + card (dom (sendTimes (g_stats (Simulator_Run E cfg evs (Sim_initial g)))))
        = unat (totalSent (g_stats (Simulator_Run E cfg evs (Sim_initial g))))"
    using wm len
    by (intro Simulator_Run_balance) (simp_all add: Sim_initial_def SimStats_initial_def)
  then show "let st = g_stats (Simulator_Run E cfg evs (Sim_initial g)) in
         unat (totalReceived st) + unat (droppedByNoise st) + unat (droppedByFading st)
           + unat (droppedBySensitivity st) + card (dom (sendTimes st)) = unat (totalSent st)
         \<and> unat (totalReceived st) + unat (droppedByNoise st) + unat (droppedByFading st)
           + unat (droppedBySensitivity st) \<le> unat (totalSent st)
         \<and> (dom (sendTimes st) = {} \<longrightarrow>
              unat (totalReceived st) + unat (droppedByNoise st) + unat (droppedByFading st)
                + unat (droppedBySensitivity st) = unat (totalSent st))"
    by (auto simp add: Let_def simp del: dom_eq_empty_conv)
next
  assume "well_matched_v3 E (evs3 @ later3) (Sim_initial_v3 g) \<and> length (evs3 @ later3) < 2 ^ 32"
  then have wm: "well_matched_v3 E evs3 (Sim_initial_v3 g)" and len: "length evs3 < 4294967296"
    by (auto dest: well_matched_v3_prefix)
  have "unat (packetsReceived (g_stats (Simulator_Run_v3 E evs3 (Sim_initial_v3 g))))
        + unat (packetsDroppedByNoise (g_stats (Simulator_Run_v3 E evs3 (Sim_initial_v3 g))))
        + unat (packetsDroppedByFading (g_stats (Simulator_Run_v3 E evs3 (Sim_initial_v3 g))))
        + card (dom (packetSendTimes (g_stats (Simulator_Run_v3 E evs3 (Sim_initial_v3 g)))))
        = unat (packetsTransmitted (g_stats (Simulator_Run_v3 E evs3 (Sim_initial_v3 g))))"
    using wm len
    by (intro Simulator_Run_v3_balance) (simp_all add: Sim_initial_v3_def NetworkStats_initial_def)
  then show "let st = g_stats (Simulator_Run_v3 E evs3 (Sim_initial_v3 g)) in
         unat (packetsReceived st) + unat (packetsDroppedByNoise st)
           + unat (packetsDroppedByFading st) + card (dom (packetSendTimes st))
           = unat (packetsTransmitted st)
         \<and> unat (packetsReceived st) + unat (packetsDroppedByNoise st)
           + unat (packetsDroppedByFading st) \<le> unat (packetsTransmitted st)
         \<and> (dom (packetSendTimes st) = {} \<longrightarrow>
              unat (packetsReceived st) + unat (packetsDroppedByNoise st)
                + unat (packetsDroppedByFading st) = unat (packetsTransmitted st))"
    by (auto simp add: Let_def simp del: dom_eq_empty_conv)
qed

text \<open>
  The run of one delivered sensor packet, and the group command indicated at its first
  member only.
\<close>

lemma line_environment_milliseconds:
  "GetMilliSeconds (line_environment spacing tape) t = t div 1000000"
  by (simp add: line_environment_def)

lemma near_evaluation:
  "SimulateChannel (line_environment 1 steady_tape) quiet_configuration 1 0 10
     \<lparr>g_stats = SimStats_initial\<lparr>totalSent := 1\<rparr>, g_rng = 0, scheduled = []\<rparr>
   = (True, \<lparr>g_stats = SimStats_initial\<lparr>totalSent := 1, snrSamples := [163.23],
        rxPowerSamples := [- 36.77], fadingSamples := [1], distanceSamples := [1]\<rparr>,
      g_rng = 0, scheduled = []\<rparr>)"
  by (simp add: line_environment_def quiet_configuration_def main_configuration_def
      g_channel_def SimStats_initial_def SimulateChannel_def
      GenerateRayleighFading_def GenerateNoisePower_def CalculatePathLoss_def Let_def)

lemma delivered_run_final:
  "g_stats (Simulator_Run (line_environment 1 steady_tape) quiet_configuration delivered_run
     (Sim_initial 0))
   = SimStats_initial\<lparr>totalSent := 1, totalReceived := 1, snrSamples := [163.23],
        rxPowerSamples := [- 36.77], fadingSamples := [1], distanceSamples := [1],
        delaysSamples := [3], lastRecv := 3000000\<rparr>"
  "well_matched (line_environment 1 steady_tape) quiet_configuration delivered_run (Sim_initial 0)"
proof -
  have send: "SendSensorData (line_environment 1 steady_tape) quiet_configuration sensor_stack
      coordinator_stack 7 0 (Sim_initial 0)
    = \<lparr>g_stats = SimStats_initial\<lparr>totalSent := 1, snrSamples := [163.23],
          rxPowerSamples := [- 36.77], fadingSamples := [1], distanceSamples := [1],
          sendTimes := [7 \<mapsto> 0]\<rparr>,
        g_rng = 0,
        scheduled = [ApsdeDataRequest 1
          \<lparr>m_useAlias = False, m_srcEndPoint = 1, m_dstEndPoint = Some 1,
           m_clusterId = 0x0402, m_profileId = 0x0104,
           m_dstAddrMode = DST_ADDR16_DST_ENDPOINT_PRESENT, m_dstAddr16 = 0\<rparr> 7]\<rparr>"
    using near_evaluation
    by (simp add: SendSensorData_def Sim_initial_def sensor_stack_def coordinator_stack_def
        Let_def beginPendingDelivery_def SimStats_initial_def)
  show "g_stats (Simulator_Run (line_environment 1 steady_tape) quiet_configuration delivered_run
     (Sim_initial 0))
   = SimStats_initial\<lparr>totalSent := 1, totalReceived := 1, snrSamples := [163.23],
        rxPowerSamples := [- 36.77], fadingSamples := [1], distanceSamples := [1],
        delaysSamples := [3], lastRecv := 3000000\<rparr>"
    by (simp add: delivered_run_def send OnDataReceived_def completePendingDelivery_def
        Let_def SimStats_initial_def line_environment_milliseconds)
  show "well_matched (line_environment 1 steady_tape) quiet_configuration delivered_run
      (Sim_initial 0)"
    by (simp add: delivered_run_def send)
       (simp add: Sim_initial_def SimStats_initial_def)
qed

lemma group_command_run_counters:
  "packetsTransmitted (g_stats (Simulator_Run_v3 E group_command_run (Sim_initial_v3 g))) = 1"
  "packetsReceived (g_stats (Simulator_Run_v3 E group_command_run (Sim_initial_v3 g))) = 2"
  "packetsFailed (g_stats (Simulator_Run_v3 E group_command_run (Sim_initial_v3 g))) = 0"
  "packetsDroppedByNoise (g_stats (Simulator_Run_v3 E group_command_run (Sim_initial_v3 g))) = 0"
  "packetsDroppedByFading (g_stats (Simulator_Run_v3 E group_command_run (Sim_initial_v3 g))) = 0"
  "groupCommands (g_stats (Simulator_Run_v3 E group_command_run (Sim_initial_v3 g))) = 2"
  "packetSendTimes (g_stats (Simulator_Run_v3 E group_command_run (Sim_initial_v3 g))) = Map.empty"
  by (simp_all add: group_command_run_def SendGroupCommand_def ApsDataIndication_def
      Sim_initial_v3_def NetworkStats_initial_def Let_def beginPendingDelivery_v3_def
      completePendingDelivery_v3_def AddTransmissionPower_def AddReceptionPower_def)

lemma first_member_run:
  "well_matched_v3 E (butlast group_command_run) (Sim_initial_v3 g)"
  "packetsTransmitted (g_stats (Simulator_Run_v3 E (butlast group_command_run) (Sim_initial_v3 g))) = 1"
  "packetsReceived (g_stats (Simulator_Run_v3 E (butlast group_command_run) (Sim_initial_v3 g))) = 1"
  "packetSendTimes (g_stats (Simulator_Run_v3 E (butlast group_command_run) (Sim_initial_v3 g)))
     = Map.empty"
  by (simp_all add: group_command_run_def SendGroupCommand_def ApsDataIndication_def
      Sim_initial_v3_def NetworkStats_initial_def Let_def beginPendingDelivery_v3_def
      completePendingDelivery_v3_def AddTransmissionPower_def AddReceptionPower_def)

theorem counters_balance_in_matched_runs_witness:
  "well_matched (line_environment 1 steady_tape) quiet_configuration (delivered_run @ [])
     (Sim_initial 0)
   \<and> length (delivered_run @ []) < 2 ^ 32
   \<and> totalSent (g_stats (Simulator_Run (line_environment 1 steady_tape) quiet_configuration
        delivered_run (Sim_initial 0))) = 1
   \<and> totalReceived (g_stats (Simulator_Run (line_environment 1 steady_tape) quiet_configuration
        delivered_run (Sim_initial 0))) = 1
   \<and> dom (sendTimes (g_stats (Simulator_Run (line_environment 1 steady_tape) quiet_configuration
        delivered_run (Sim_initial 0)))) = {}
   \<and> well_matched_v3 (line_environment 1 steady_tape) (butlast group_command_run @ [])
        (Sim_initial_v3 0)
   \<and> length (butlast group_command_run @ []) < 2 ^ 32
   \<and> unat (packetsReceived (g_stats (Simulator_Run_v3 (line_environment 1 steady_tape)
        (butlast group_command_run) (Sim_initial_v3 0))))
      + unat (packetsDroppedByNoise (g_stats (Simulator_Run_v3 (line_environment 1 steady_tape)
        (butlast group_command_run) (Sim_initial_v3 0))))
      + unat (packetsDroppedByFading (g_stats (Simulator_Run_v3 (line_environment 1 steady_tape)
        (butlast group_command_run) (Sim_initial_v3 0))))
      = unat (packetsTransmitted (g_stats (Simulator_Run_v3 (line_environment 1 steady_tape)
        (butlast group_command_run) (Sim_initial_v3 0))))"
proof -
  have lens: "length (delivered_run @ []) < 2 ^ 32" "length (butlast group_command_run @ []) < 2 ^ 32"
    by (simp_all add: delivered_run_def group_command_run_def)
  show ?thesis
    using lens delivered_run_final first_member_run [of "line_environment 1 steady_tape" 0]
      counters_balance_in_matched_runs [of "line_environment 1 steady_tape" quiet_configuration
        delivered_run "[]" 0 "butlast group_command_run" "[]"]
    by (simp add: Let_def SimStats_initial_def)
qed

section \<open>Group commands in version 3\<close>

text \<open>
  C1.  Version 3 with its default command line: six nodes, nodes 4 and 5 in the group of
  all lights.  The coordinator sends one group command, which counts as one packet
  transmitted; the receive callback counts it at node 4 and again at node 5.  At the end of
  that run nothing is pending, nothing was dropped and nothing failed, and two packets are
  received for one sent: the recorded outcomes exceed the packets sent, and the report
  shows a delivery ratio of 200 % and a loss rate of -100 %.
\<close>

theorem group_command_counted_at_every_member:
  "map_sum id packet_figures_v3
       (main_v3 E mt19937 rd CommandLine_v3_default group_command_run)
     = Inr (1, 2, 0, 0, 0, 200, - 100)
   \<and> \<not> unat (packetsReceived (g_stats
          (Simulator_Run_v3 E group_command_run (process_start_v3 mt19937 rd))))
       + unat (packetsDroppedByNoise (g_stats
          (Simulator_Run_v3 E group_command_run (process_start_v3 mt19937 rd))))
       + unat (packetsDroppedByFading (g_stats
          (Simulator_Run_v3 E group_command_run (process_start_v3 mt19937 rd))))
       + unat (packetsFailed (g_stats
          (Simulator_Run_v3 E group_command_run (process_start_v3 mt19937 rd))))
     \<le> unat (packetsTransmitted (g_stats
          (Simulator_Run_v3 E group_command_run (process_start_v3 mt19937 rd))))
   \<and> packetSendTimes (g_stats
          (Simulator_Run_v3 E group_command_run (process_start_v3 mt19937 rd))) = Map.empty"
  by (simp add: main_v3_def CommandLine_v3_default_def process_start_v3_def
      packet_figures_v3_def pdr_def lossRate_def group_command_run_counters)

section \<open>The engine and the switches of version 3\<close>

lemma sqrt_200: "sqrt 200 / sqrt 2 = 10"
proof -
  have "sqrt (100 * 2) = sqrt 100 * sqrt 2" by (rule real_sqrt_mult)
  moreover have "sqrt 100 = 10" by (rule real_sqrt_unique) simp_all
  ultimately have "sqrt 200 = 10 * sqrt 2" by simp
  then show ?thesis by simp
qed

lemma first_draws_evaluation:
  "SimulateChannelEffects (line_environment 1 stepped_tape) 1 0 (Sim_initial_v3 0)
   = (True, \<lparr>g_stats = NetworkStats_initial\<lparr>snrValues := [52], fadingCoefficients := [1]\<rparr>,
      g_rng = 3, scheduled = []\<rparr>)"
  by (simp add: line_environment_def NetworkStats_initial_def Sim_initial_v3_def
      SimulateChannelEffects_def CalculateReceivedPower_def GenerateRayleighFading_v3_def
      CalculatePathLoss_v3_def GenerateGaussianNoise_def CalculateSNR_def Let_def
      NOISE_FLOOR_DBM_def TX_POWER_DBM_def REFERENCE_DISTANCE_def PATH_LOSS_EXPONENT_def
      SNR_THRESHOLD_DB_def stepped_tape_def numeral_3_eq_3)

lemma later_draws_fading:
  "GenerateRayleighFading_v3 (line_environment 1 stepped_tape) 3 = (10, 5)"
  by (simp add: line_environment_def GenerateRayleighFading_v3_def Let_def stepped_tape_def
      sqrt_200)

lemma later_draws_evaluation:
  "SimulateChannelEffects (line_environment 1 stepped_tape) 1 0 (Sim_initial_v3 3)
   = (True, \<lparr>g_stats = NetworkStats_initial\<lparr>snrValues := [45], fadingCoefficients := [10]\<rparr>,
      g_rng = 6, scheduled = []\<rparr>)"
  using later_draws_fading
  by (simp add: NetworkStats_initial_def Sim_initial_v3_def
      SimulateChannelEffects_def CalculateReceivedPower_def
      CalculatePathLoss_v3_def GenerateGaussianNoise_def CalculateSNR_def Let_def
      NOISE_FLOOR_DBM_def TX_POWER_DBM_def REFERENCE_DISTANCE_def PATH_LOSS_EXPONENT_def
      SNR_THRESHOLD_DB_def)
     (simp add: line_environment_def stepped_tape_def)

lemma one_reading_samples:
  "samples_v3 (Simulator_Run_v3 (line_environment 1 stepped_tape) one_reading_run
      (Sim_initial_v3 0)) = ([52], [1])"
  "samples_v3 (Simulator_Run_v3 (line_environment 1 stepped_tape) one_reading_run
      (Sim_initial_v3 3)) = ([45], [10])"
  by (simp_all add: one_reading_run_def SendTemperatureReading_def sensor_stack_def
      coordinator_stack_def first_draws_evaluation later_draws_evaluation Let_def samples_v3_def
      beginPendingDelivery_v3_def AddTransmissionPower_def)


text \<open>
  C8.  Version 3 with \<open>--enableFading=false\<close>.  The switch changes nothing in the run:
  \<open>GenerateRayleighFading\<close> of this script takes no configuration, draws from the engine and
  returns the Rayleigh amplitude, here \<open>10\<close> and not \<open>1\<close>, and the fading term in dB is
  \<open>20\<close> and not \<open>0\<close> (the SNR recorded is \<open>-40 + 20 + 65\<close>).  The extended script with its
  switch off returns \<open>1\<close> at the same engine state and leaves the engine alone.
\<close>

theorem fading_switch_of_version_3_is_ignored:
  "main_v3 E mt19937 rd (cmd\<lparr>enableFading_v3 := False\<rparr>) evs
     = main_v3 E mt19937 rd (cmd\<lparr>enableFading_v3 := True\<rparr>) evs
   \<and> fst (GenerateRayleighFading_v3 (line_environment 1 stepped_tape) 3) = 10
   \<and> snd (GenerateRayleighFading_v3 (line_environment 1 stepped_tape) 3) \<noteq> 3
   \<and> map_sum id samples_v3
       (main_v3 (line_environment 1 stepped_tape) counting_engine 3
          (CommandLine_v3_default\<lparr>enableFading_v3 := False\<rparr>) one_reading_run)
     = Inr ([45], [10])
   \<and> GenerateRayleighFading (line_environment 1 stepped_tape)
        (main_configuration True False (- 100) 10 6 3) 3 = (1, 3)"
  by (simp add: main_v3_def CommandLine_v3_default_def process_start_v3_def
      counting_engine_def one_reading_samples later_draws_fading GenerateRayleighFading_def
      main_configuration_def g_channel_def)

end
